theory Spec2Isabelle
  imports Main "HOL-Library.AList_Mapping"
begin

section \<open>The image-stream-tag output step of ci-operator\<close>

text \<open>
  A shallow embedding of \<^verbatim>\<open>pkg/steps/output_image_tag.go\<close>. The step talks to a remote
  store through two client interfaces. A client is a parameter of the model: each of its
  methods is a function from the state of the world (the type variable \<open>'w\<close>, which holds
  the store and everything else that may change it) to a result and a new world. Every
  function of the step returns its Go result, the world it leaves, and the list of the
  effects it performed in order (log lines, standard output, store calls, sleeps).
  The \<^verbatim>\<open>context.Context\<close> argument of \<^verbatim>\<open>Inputs\<close> and \<^verbatim>\<open>Run\<close> is never read by the
  source and is left out.
\<close>

subsection \<open>API objects\<close>

text \<open>
  The Go types below are declared in \<^verbatim>\<open>k8s.io/apimachinery\<close>, \<^verbatim>\<open>k8s.io/api\<close> and
  \<^verbatim>\<open>github.com/openshift/api\<close>. A Go pointer field is an \<open>option\<close>, a Go map is a
  \<open>mapping\<close> (so that a nil map and an empty map are equal, as \<^verbatim>\<open>equality.Semantic\<close> has
  it), and a field left out of a Go composite literal has its zero value.
  \<open>TagReference\<close> and \<open>ObjectReference\<close>, which \<open>Done\<close> compares, have all their fields.
  \<open>ObjectMeta\<close>, \<open>Image\<close>, \<open>ImageStreamTag\<close> and \<open>ImageStream\<close> have more fields than are
  listed here; the step reads, writes and compares none of the others.
\<close>

record ObjectMeta =
  om_Name :: string
  om_Namespace :: string
  om_UID :: string
  om_ResourceVersion :: string
  om_Generation :: int
  om_Labels :: "(string, string) mapping"
  om_Annotations :: "(string, string) mapping"

definition ObjectMeta_zero :: ObjectMeta where
  "ObjectMeta_zero =
     \<lparr>om_Name = [], om_Namespace = [], om_UID = [], om_ResourceVersion = [],
      om_Generation = 0, om_Labels = Mapping.empty, om_Annotations = Mapping.empty\<rparr>"

record ObjectReference =
  ref_Kind :: string
  ref_Namespace :: string
  ref_Name :: string
  ref_UID :: string
  ref_APIVersion :: string
  ref_ResourceVersion :: string
  ref_FieldPath :: string

record TagImportPolicy =
  ip_Insecure :: bool
  ip_Scheduled :: bool

record TagReferencePolicy =
  rp_Type :: string

definition LocalTagReferencePolicy :: string where
  "LocalTagReferencePolicy = ''Local''"

record TagReference =
  tr_Name :: string
  tr_Annotations :: "(string, string) mapping"
  tr_From :: "ObjectReference option"
  tr_Reference :: bool
  tr_Generation :: "int option"
  tr_ImportPolicy :: TagImportPolicy
  tr_ReferencePolicy :: TagReferencePolicy

record Image =
  img_ObjectMeta :: ObjectMeta
  img_DockerImageReference :: string

definition Image_zero :: Image where
  "Image_zero = \<lparr>img_ObjectMeta = ObjectMeta_zero, img_DockerImageReference = []\<rparr>"

record ImageStreamTag =
  ist_ObjectMeta :: ObjectMeta
  ist_Tag :: "TagReference option"
  ist_Generation :: int
  ist_LookupPolicy :: bool
  ist_Image :: Image

record ImageStreamStatus =
  iss_DockerImageRepository :: string
  iss_PublicDockerImageRepository :: string

record ImageStream =
  is_ObjectMeta :: ObjectMeta
  is_Status :: ImageStreamStatus

subsection \<open>Errors of the store\<close>

text \<open>
  An error returned by a client has a reason, which \<^verbatim>\<open>errors.IsNotFound\<close>,
  \<^verbatim>\<open>errors.IsAlreadyExists\<close> and \<^verbatim>\<open>errors.IsConflict\<close> test, and the text that
  \<^verbatim>\<open>%v\<close> prints. An error that is not an API status has the reason unknown.
\<close>

datatype StatusReason =
  StatusReasonUnknown
  | StatusReasonNotFound
  | StatusReasonAlreadyExists
  | StatusReasonConflict

record StatusError =
  Reason :: StatusReason
  Message :: string

definition IsNotFound :: "StatusError \<Rightarrow> bool" where
  "IsNotFound err = (Reason err = StatusReasonNotFound)"

definition IsAlreadyExists :: "StatusError \<Rightarrow> bool" where
  "IsAlreadyExists err = (Reason err = StatusReasonAlreadyExists)"

definition IsConflict :: "StatusError \<Rightarrow> bool" where
  "IsConflict err = (Reason err = StatusReasonConflict)"

subsection \<open>Effects and clients\<close>

datatype event =
  Log string
  | Stdout string
  | Sleep
  | IstGet string string
  | IstCreate string ImageStreamTag
  | IstUpdate string ImageStreamTag
  | IsGet string string

text \<open>
  \<^verbatim>\<open>c.ImageStreamTags(ns).Get(name, opts)\<close> is \<open>ist_Get c ns name\<close>, and so on: the
  namespace comes first.
\<close>

record 'w ImageStreamTagsGetter =
  ist_Get :: "string \<Rightarrow> string \<Rightarrow> 'w \<Rightarrow> (StatusError + ImageStreamTag) \<times> 'w"
  ist_Create :: "string \<Rightarrow> ImageStreamTag \<Rightarrow> 'w \<Rightarrow> (StatusError + ImageStreamTag) \<times> 'w"
  ist_Update :: "string \<Rightarrow> ImageStreamTag \<Rightarrow> 'w \<Rightarrow> (StatusError + ImageStreamTag) \<times> 'w"

record 'w ImageStreamsGetter =
  is_Get :: "string \<Rightarrow> string \<Rightarrow> 'w \<Rightarrow> (StatusError + ImageStream) \<times> 'w"

subsection \<open>What the step imports\<close>

text \<open>
  The constants of \<^verbatim>\<open>pkg/api\<close>, the retry policy \<^verbatim>\<open>retry.DefaultRetry\<close>,
  \<^verbatim>\<open>json.MarshalIndent\<close> (with the indentation the step passes) and \<^verbatim>\<open>strings.ToUpper\<close>
  are declared outside the step's file. They are parameters of the model.
\<close>

record Backoff =
  Steps :: nat

record deps =
  PipelineImageStream :: string
  StableImageStream :: string
  DefaultRetry :: Backoff
  MarshalIndent :: "ImageStreamTag \<Rightarrow> string + string"
  ToUpper :: "string \<Rightarrow> string"

subsection \<open>The step\<close>

text \<open>
  Of \<^verbatim>\<open>api.JobSpec\<close> the step reads the namespace only. \<^verbatim>\<open>jobSpec\<close> is a pointer that the
  constructor \<^verbatim>\<open>OutputImageTagStep\<close> stores as it is given; the model takes it not to be
  nil.
\<close>

record ImageStreamTagReference =
  to_Namespace :: string
  to_Name :: string
  to_Tag :: string
  to_As :: string

record OutputImageTagStepConfiguration =
  From :: string
  To :: ImageStreamTagReference

record JobSpec =
  js_Namespace :: string

record 'w outputImageTagStep =
  config :: OutputImageTagStepConfiguration
  istClient :: "'w ImageStreamTagsGetter"
  isClient :: "'w ImageStreamsGetter"
  jobSpec :: JobSpec

definition Inputs :: "'w outputImageTagStep \<Rightarrow> bool \<Rightarrow> 'w \<Rightarrow> (string list \<times> string option) \<times> 'w \<times> event list" where
  "Inputs s dry w = (([], None), w, [])"

definition namespace :: "'w outputImageTagStep \<Rightarrow> string" where
  "namespace s =
     (if length (to_Namespace (To (config s))) \<noteq> 0 then to_Namespace (To (config s))
      else js_Namespace (jobSpec s))"

definition imageStreamTag :: "deps \<Rightarrow> 'w outputImageTagStep \<Rightarrow> string \<Rightarrow> ImageStreamTag" where
  "imageStreamTag d s fromImage =
     \<lparr>ist_ObjectMeta = ObjectMeta_zero
        \<lparr>om_Name := to_Name (To (config s)) @ '':'' @ to_Tag (To (config s)),
         om_Namespace := namespace s\<rparr>,
      ist_Tag = Some
        \<lparr>tr_Name = [], tr_Annotations = Mapping.empty,
         tr_From = Some
           \<lparr>ref_Kind = ''ImageStreamImage'',
            ref_Namespace = js_Namespace (jobSpec s),
            ref_Name = PipelineImageStream d @ ''@'' @ fromImage,
            ref_UID = [], ref_APIVersion = [], ref_ResourceVersion = [], ref_FieldPath = []\<rparr>,
         tr_Reference = False, tr_Generation = None,
         tr_ImportPolicy = \<lparr>ip_Insecure = False, ip_Scheduled = False\<rparr>,
         tr_ReferencePolicy = \<lparr>rp_Type = LocalTagReferencePolicy\<rparr>\<rparr>,
      ist_Generation = 0,
      ist_LookupPolicy = False,
      ist_Image = Image_zero\<rparr>"

subsection \<open>Retrying on conflict\<close>

text \<open>
  Modelled from the spec: \<^verbatim>\<open>retry.RetryOnConflict\<close> of \<^verbatim>\<open>k8s.io/client-go/util/retry\<close>,
  which the step calls and whose source is not among the files of the step. The spec
  (reconciliation steps 5 and 6, and the resource model) says: when the update reports a
  concurrency conflict the fetch-and-update is tried again, under a bounded retry policy
  with backoff; exhausting the retries is an error; any other error is returned at once.
  The function \<open>fn\<close> is tried at most \<open>Steps\<close> times, it sleeps before every try but the
  first, and when every try ended in a conflict the last conflict is the error returned.
  \<open>fn\<close> is a Go closure: \<open>'s\<close> is the state it reads and writes.
\<close>

fun retry_loop ::
  "nat \<Rightarrow> bool \<Rightarrow> ('s \<Rightarrow> StatusError option \<times> 's \<times> event list) \<Rightarrow> StatusError option \<Rightarrow> 's
     \<Rightarrow> StatusError option \<times> 's \<times> event list" where
  "retry_loop 0 slept fn lastConflictErr st = (lastConflictErr, st, [])"
| "retry_loop (Suc n) slept fn lastConflictErr st =
     (let pause = (if slept then [Sleep] else []) in
      case fn st of
        (None, st1, evs) \<Rightarrow> (None, st1, pause @ evs)
      | (Some err, st1, evs) \<Rightarrow>
          if IsConflict err then
            (case retry_loop n True fn (Some err) st1 of
               (r, st2, evs') \<Rightarrow> (r, st2, pause @ evs @ evs'))
          else (Some err, st1, pause @ evs))"

definition RetryOnConflict ::
  "Backoff \<Rightarrow> ('s \<Rightarrow> StatusError option \<times> 's \<times> event list) \<Rightarrow> 's
     \<Rightarrow> StatusError option \<times> 's \<times> event list" where
  "RetryOnConflict backoff fn st = retry_loop (Steps backoff) False fn None st"

subsection \<open>Run\<close>

text \<open>
  The closure that \<open>Run\<close> passes to \<^verbatim>\<open>RetryOnConflict\<close>. It shares the variable
  \<^verbatim>\<open>ist\<close> with \<open>Run\<close> and assigns to its \<^verbatim>\<open>ResourceVersion\<close>, so \<^verbatim>\<open>ist\<close> is part of its
  state. A client does not change the object it is given.
\<close>

definition Run_update ::
  "'w outputImageTagStep \<Rightarrow> string \<Rightarrow> ImageStreamTag \<times> 'w
     \<Rightarrow> StatusError option \<times> (ImageStreamTag \<times> 'w) \<times> event list" where
  "Run_update s toNamespace = (\<lambda>(ist, w).
     let ns = om_Namespace (ist_ObjectMeta ist); name = om_Name (ist_ObjectMeta ist) in
     case ist_Get (istClient s) ns name w of
       (Inl err, w1) \<Rightarrow> (Some err, (ist, w1), [IstGet ns name])
     | (Inr existingIst, w1) \<Rightarrow>
         (let ist1 = ist\<lparr>ist_ObjectMeta := (ist_ObjectMeta ist)
                      \<lparr>om_ResourceVersion := om_ResourceVersion (ist_ObjectMeta existingIst)\<rparr>\<rparr> in
          case ist_Update (istClient s) toNamespace ist1 w1 of
            (Inl err, w2) \<Rightarrow> (Some err, (ist1, w2), [IstGet ns name, IstUpdate toNamespace ist1])
          | (Inr _, w2) \<Rightarrow> (None, (ist1, w2), [IstGet ns name, IstUpdate toNamespace ist1])))"

definition Run_log :: "deps \<Rightarrow> 'w outputImageTagStep \<Rightarrow> event" where
  "Run_log d s =
     (let toNamespace = namespace s in
      if From (config s) = to_Tag (To (config s)) \<and> toNamespace = js_Namespace (jobSpec s)
         \<and> to_Name (To (config s)) = StableImageStream d
      then Log (''Tagging '' @ From (config s) @ '' into '' @ to_Name (To (config s)))
      else Log (''Tagging '' @ From (config s) @ '' into '' @ toNamespace @ ''/''
                @ to_Name (To (config s)) @ '':'' @ to_Tag (To (config s))))"

definition Run :: "deps \<Rightarrow> 'w outputImageTagStep \<Rightarrow> bool \<Rightarrow> 'w \<Rightarrow> string option \<times> 'w \<times> event list" where
  "Run d s dry w =
     (let toNamespace = namespace s;
          src = PipelineImageStream d @ '':'' @ From (config s) in
      case (if \<not> dry then
              (case ist_Get (istClient s) (js_Namespace (jobSpec s)) src w of
                 (Inl err, w1) \<Rightarrow>
                   (Inl (''could not resolve base image: '' @ Message err), w1,
                    [IstGet (js_Namespace (jobSpec s)) src])
               | (Inr from, w1) \<Rightarrow>
                   (Inr (om_Name (img_ObjectMeta (ist_Image from))), w1,
                    [IstGet (js_Namespace (jobSpec s)) src]))
            else (Inr ''dry-fake'', w, [])) of
        (Inl e, w1, evs1) \<Rightarrow> (Some e, w1, Run_log d s # evs1)
      | (Inr fromImage, w1, evs1) \<Rightarrow>
          (let ist = imageStreamTag d s fromImage in
           if dry then
             (case MarshalIndent d ist of
                Inl err \<Rightarrow> (Some (''failed to marshal imagestreamtag: '' @ err), w1, Run_log d s # evs1)
              | Inr istJSON \<Rightarrow> (None, w1, Run_log d s # evs1 @ [Stdout (istJSON @ [CHR 0x0A])]))
           else
             (case ist_Create (istClient s) toNamespace ist w1 of
                (Inr _, w2) \<Rightarrow> (None, w2, Run_log d s # evs1 @ [IstCreate toNamespace ist])
              | (Inl err, w2) \<Rightarrow>
                  if IsAlreadyExists err then
                    (case RetryOnConflict (DefaultRetry d) (Run_update s toNamespace) (ist, w2) of
                       (None, (ist1, w3), evs) \<Rightarrow>
                         (None, w3, Run_log d s # evs1 @ [IstCreate toNamespace ist] @ evs)
                     | (Some err1, (ist1, w3), evs) \<Rightarrow>
                         (Some (''could not update output imagestreamtag: '' @ Message err1), w3,
                          Run_log d s # evs1 @ [IstCreate toNamespace ist] @ evs))
                  else
                    (Some (''could not create output imagestreamtag: '' @ Message err), w2,
                     Run_log d s # evs1 @ [IstCreate toNamespace ist]))))"

subsection \<open>Done\<close>

definition Done :: "deps \<Rightarrow> 'w outputImageTagStep \<Rightarrow> 'w \<Rightarrow> (bool \<times> string option) \<times> 'w \<times> event list" where
  "Done d s w =
     (let toNamespace = namespace s;
          target = to_Name (To (config s)) @ '':'' @ to_Tag (To (config s));
          src = PipelineImageStream d @ '':'' @ From (config s);
          ev0 = Log (''Checking for existence of '' @ toNamespace @ ''/''
                     @ to_Name (To (config s)) @ '':'' @ to_Tag (To (config s)));
          ev1 = IstGet toNamespace target;
          ev2 = IstGet (js_Namespace (jobSpec s)) src in
      case ist_Get (istClient s) toNamespace target w of
        (Inl err, w1) \<Rightarrow>
          if IsNotFound err then ((False, None), w1, [ev0, ev1])
          else ((False, Some (''could not retrieve output imagestreamtag: '' @ Message err)), w1,
                [ev0, ev1])
      | (Inr ist, w1) \<Rightarrow>
          (case ist_Get (istClient s) (js_Namespace (jobSpec s)) src w1 of
             (Inl err, w2) \<Rightarrow>
               ((False, Some (''could not resolve base image: '' @ Message err)), w2, [ev0, ev1, ev2])
           | (Inr from, w2) \<Rightarrow>
               (let desiredIst = imageStreamTag d s (om_Name (img_ObjectMeta (ist_Image from))) in
                ((ist_Tag ist = ist_Tag desiredIst, None), w2, [ev0, ev1, ev2]))))"

subsection \<open>Provides\<close>

datatype StepLink =
  InternalImageLink string
  | ExternalImageLink ImageStreamTagReference
  | ReleaseImagesLink

text \<open>\<^verbatim>\<open>strings.Replace(s, "-", "_", -1)\<close>: every hyphen becomes an underscore.\<close>

definition Replace_hyphens :: "string \<Rightarrow> string" where
  "Replace_hyphens str = map (\<lambda>c. if c = CHR ''-'' then CHR ''_'' else c) str"

text \<open>The function stored in the parameter map; it runs only when a consumer calls it.\<close>

definition Provides_param :: "'w outputImageTagStep \<Rightarrow> 'w \<Rightarrow> (string \<times> string option) \<times> 'w \<times> event list" where
  "Provides_param s w =
     (let ev = IsGet (namespace s) (to_Name (To (config s))) in
      case is_Get (isClient s) (namespace s) (to_Name (To (config s))) w of
        (Inl err, w1) \<Rightarrow>
          (([], Some (''could not retrieve output imagestream: '' @ Message err)), w1, [ev])
      | (Inr is, w1) \<Rightarrow>
          if length (iss_PublicDockerImageRepository (is_Status is)) > 0 then
            ((iss_PublicDockerImageRepository (is_Status is) @ '':'' @ to_Tag (To (config s)), None),
             w1, [ev])
          else if length (iss_DockerImageRepository (is_Status is)) > 0 then
            ((iss_DockerImageRepository (is_Status is) @ '':'' @ to_Tag (To (config s)), None),
             w1, [ev])
          else
            (([], Some (''image stream '' @ to_As (To (config s))
                        @ '' has no accessible image registry value'')), w1, [ev]))"

definition Provides ::
  "deps \<Rightarrow> 'w outputImageTagStep
     \<Rightarrow> (string \<rightharpoonup> ('w \<Rightarrow> (string \<times> string option) \<times> 'w \<times> event list)) \<times> StepLink option" where
  "Provides d s =
     (if length (to_As (To (config s))) = 0 then (Map.empty, None)
      else ([''IMAGE_'' @ ToUpper d (Replace_hyphens (to_As (To (config s)))) \<mapsto> Provides_param s],
            Some (ExternalImageLink (To (config s)))))"

section \<open>Vocabulary of the properties\<close>

definition target_name :: "'w outputImageTagStep \<Rightarrow> string" where
  "target_name s = to_Name (To (config s)) @ '':'' @ to_Tag (To (config s))"

definition source_name :: "deps \<Rightarrow> 'w outputImageTagStep \<Rightarrow> string" where
  "source_name d s = PipelineImageStream d @ '':'' @ From (config s)"

fun is_store_call :: "event \<Rightarrow> bool" where
  "is_store_call (IstGet ns name) = True"
| "is_store_call (IstCreate ns ist) = True"
| "is_store_call (IstUpdate ns ist) = True"
| "is_store_call (IsGet ns name) = True"
| "is_store_call e = False"

fun is_mutation :: "event \<Rightarrow> bool" where
  "is_mutation (IstCreate ns ist) = True"
| "is_mutation (IstUpdate ns ist) = True"
| "is_mutation e = False"

fun is_update :: "event \<Rightarrow> bool" where
  "is_update (IstUpdate ns ist) = True"
| "is_update e = False"

fun is_get :: "event \<Rightarrow> bool" where
  "is_get (IstGet ns name) = True"
| "is_get e = False"

fun is_sleep :: "event \<Rightarrow> bool" where
  "is_sleep Sleep = True"
| "is_sleep e = False"

text \<open>The resource \<open>ist\<close> carrying the concurrency token \<open>rv\<close>, and nothing else changed.\<close>

definition with_ResourceVersion :: "ImageStreamTag \<Rightarrow> string \<Rightarrow> ImageStreamTag" where
  "with_ResourceVersion ist rv =
     ist\<lparr>ist_ObjectMeta := (ist_ObjectMeta ist)\<lparr>om_ResourceVersion := rv\<rparr>\<rparr>"

text \<open>
  One fetch-and-update as the specification words it: fetch the stored resource at the
  target, copy its concurrency token onto the desired resource, attempt an update.
\<close>

definition fetch_and_update ::
  "'w outputImageTagStep \<Rightarrow> ImageStreamTag \<Rightarrow> 'w \<Rightarrow> StatusError option \<times> 'w" where
  "fetch_and_update s desired w =
     (case ist_Get (istClient s) (namespace s) (target_name s) w of
        (Inl err, w1) \<Rightarrow> (Some err, w1)
      | (Inr existing, w1) \<Rightarrow>
          (case ist_Update (istClient s) (namespace s)
                  (with_ResourceVersion desired (om_ResourceVersion (ist_ObjectMeta existing))) w1 of
             (Inl err, w2) \<Rightarrow> (Some err, w2)
           | (Inr _, w2) \<Rightarrow> (None, w2)))"

text \<open>
  \<open>after_conflicts k s desired w\<close> is the world left by \<open>k\<close> fetch-and-updates in a row
  from \<open>w\<close> when each of them ended in a conflict, and \<open>None\<close> when one of them did not.
\<close>

fun after_conflicts :: "nat \<Rightarrow> 'w outputImageTagStep \<Rightarrow> ImageStreamTag \<Rightarrow> 'w \<Rightarrow> 'w option" where
  "after_conflicts 0 s desired w = Some w"
| "after_conflicts (Suc k) s desired w =
     (case fetch_and_update s desired w of
        (Some err, w1) \<Rightarrow> if IsConflict err then after_conflicts k s desired w1 else None
      | (None, w1) \<Rightarrow> None)"

text \<open>
  A store call of the step is in place when it addresses the target tag or the target
  image stream in the effective namespace, or reads the source tag in the namespace of the
  job.
\<close>

fun in_place :: "deps \<Rightarrow> 'w outputImageTagStep \<Rightarrow> event \<Rightarrow> bool" where
  "in_place d s (IstGet ns name) =
     (ns = namespace s \<and> name = target_name s
      \<or> ns = js_Namespace (jobSpec s) \<and> name = source_name d s)"
| "in_place d s (IstCreate ns ist) =
     (ns = namespace s \<and> om_Namespace (ist_ObjectMeta ist) = namespace s
      \<and> om_Name (ist_ObjectMeta ist) = target_name s)"
| "in_place d s (IstUpdate ns ist) =
     (ns = namespace s \<and> om_Namespace (ist_ObjectMeta ist) = namespace s
      \<and> om_Name (ist_ObjectMeta ist) = target_name s)"
| "in_place d s (IsGet ns name) = (ns = namespace s \<and> name = to_Name (To (config s)))"
| "in_place d s e = True"

section \<open>An in-memory store for the worked examples\<close>

text \<open>
  A small store in the manner of a fake clientset: tags and streams are kept in association
  lists under namespace and name, \<open>Create\<close> refuses a tag that exists, the first
  \<open>fw_conflicts\<close> updates are refused with a conflict, as if another run had written in
  between, and a read-only store refuses every write that would otherwise go through.
\<close>

record fake_world =
  fw_tags :: "((string \<times> string) \<times> ImageStreamTag) list"
  fw_streams :: "((string \<times> string) \<times> ImageStream) list"
  fw_conflicts :: nat
  fw_readonly :: bool

definition fake_istClient :: "fake_world ImageStreamTagsGetter" where
  "fake_istClient =
     \<lparr>ist_Get = (\<lambda>ns name w.
        case map_of (fw_tags w) (ns, name) of
          None \<Rightarrow> (Inl \<lparr>Reason = StatusReasonNotFound, Message = ''not found''\<rparr>, w)
        | Some ist \<Rightarrow> (Inr ist, w)),
      ist_Create = (\<lambda>ns ist w.
        case map_of (fw_tags w) (ns, om_Name (ist_ObjectMeta ist)) of
          Some old \<Rightarrow> (Inl \<lparr>Reason = StatusReasonAlreadyExists, Message = ''already exists''\<rparr>, w)
        | None \<Rightarrow>
            if fw_readonly w then (Inl \<lparr>Reason = StatusReasonUnknown, Message = ''forbidden''\<rparr>, w)
            else (Inr ist, w\<lparr>fw_tags := ((ns, om_Name (ist_ObjectMeta ist)), ist) # fw_tags w\<rparr>)),
      ist_Update = (\<lambda>ns ist w.
        if fw_conflicts w > 0
        then (Inl \<lparr>Reason = StatusReasonConflict, Message = ''conflict''\<rparr>,
              w\<lparr>fw_conflicts := fw_conflicts w - 1\<rparr>)
        else if fw_readonly w then (Inl \<lparr>Reason = StatusReasonUnknown, Message = ''forbidden''\<rparr>, w)
        else (Inr ist, w\<lparr>fw_tags := ((ns, om_Name (ist_ObjectMeta ist)), ist) # fw_tags w\<rparr>))\<rparr>"

definition fake_isClient :: "fake_world ImageStreamsGetter" where
  "fake_isClient =
     \<lparr>is_Get = (\<lambda>ns name w.
        case map_of (fw_streams w) (ns, name) of
          None \<Rightarrow> (Inl \<lparr>Reason = StatusReasonNotFound, Message = ''not found''\<rparr>, w)
        | Some is \<Rightarrow> (Inr is, w))\<rparr>"

definition deps0 :: deps where
  "deps0 =
     \<lparr>PipelineImageStream = ''pipeline'', StableImageStream = ''stable'',
      DefaultRetry = \<lparr>Steps = 3\<rparr>,
      MarshalIndent = (\<lambda>ist. Inr (om_Name (ist_ObjectMeta ist))),
      ToUpper = (\<lambda>str. str)\<rparr>"

text \<open>The step of the end-to-end scenario, run in the namespace \<open>ci\<close>.\<close>

definition step0 :: "fake_world outputImageTagStep" where
  "step0 =
     \<lparr>config = \<lparr>From = ''builder'',
                To = \<lparr>to_Namespace = [], to_Name = ''stable'', to_Tag = ''latest'', to_As = []\<rparr>\<rparr>,
      istClient = fake_istClient, isClient = fake_isClient,
      jobSpec = \<lparr>js_Namespace = ''ci''\<rparr>\<rparr>"

text \<open>The same step, exporting its image under the name \<open>cli\<close>.\<close>

definition step1 :: "fake_world outputImageTagStep" where
  "step1 = step0\<lparr>config := (config step0)\<lparr>To := (To (config step0))\<lparr>to_As := ''cli''\<rparr>\<rparr>\<rparr>"

text \<open>The same step, tagging into the namespace \<open>ocp\<close>.\<close>

definition step2 :: "fake_world outputImageTagStep" where
  "step2 = step0\<lparr>config := (config step0)\<lparr>To := (To (config step0))\<lparr>to_Namespace := ''ocp''\<rparr>\<rparr>\<rparr>"

text \<open>The source tag \<open>pipeline:builder\<close>, backed by the image \<open>img\<close>.\<close>

definition source_tag :: "string \<Rightarrow> (string \<times> string) \<times> ImageStreamTag" where
  "source_tag img =
     ((''ci'', ''pipeline:builder''),
      \<lparr>ist_ObjectMeta = ObjectMeta_zero\<lparr>om_Name := ''pipeline:builder'', om_Namespace := ''ci''\<rparr>,
       ist_Tag = None, ist_Generation = 0, ist_LookupPolicy = False,
       ist_Image = Image_zero\<lparr>img_ObjectMeta := ObjectMeta_zero\<lparr>om_Name := img\<rparr>\<rparr>\<rparr>)"

text \<open>The target tag as the store holds it after a run on the image \<open>img\<close>, under the token \<open>rv\<close>.\<close>

definition stored_tag :: "string \<Rightarrow> string \<Rightarrow> (string \<times> string) \<times> ImageStreamTag" where
  "stored_tag img rv =
     ((''ci'', ''stable:latest''), with_ResourceVersion (imageStreamTag deps0 step0 img) rv)"



text \<open>The target tag of the step that tags into \<open>ocp\<close>.\<close>

definition stored_tag2 :: "string \<Rightarrow> string \<Rightarrow> (string \<times> string) \<times> ImageStreamTag" where
  "stored_tag2 img rv =
     ((''ocp'', ''stable:latest''), with_ResourceVersion (imageStreamTag deps0 step2 img) rv)"

definition world0 :: "((string \<times> string) \<times> ImageStreamTag) list \<Rightarrow> nat \<Rightarrow> bool \<Rightarrow> fake_world" where
  "world0 tags n ro = \<lparr>fw_tags = tags, fw_streams = [], fw_conflicts = n, fw_readonly = ro\<rparr>"

definition stream0 :: "string \<Rightarrow> string \<Rightarrow> (string \<times> string) \<times> ImageStream" where
  "stream0 internal external =
     ((''ci'', ''stable''),
      \<lparr>is_ObjectMeta = ObjectMeta_zero\<lparr>om_Name := ''stable'', om_Namespace := ''ci''\<rparr>,
       is_Status = \<lparr>iss_DockerImageRepository = internal,
                    iss_PublicDockerImageRepository = external\<rparr>\<rparr>)"

definition world1 :: "((string \<times> string) \<times> ImageStream) list \<Rightarrow> fake_world" where
  "world1 streams = \<lparr>fw_tags = [], fw_streams = streams, fw_conflicts = 0, fw_readonly = False\<rparr>"

section \<open>Lemmas\<close>

subsection \<open>The desired resource and its concurrency token\<close>

lemma with_ResourceVersion_same:
  "with_ResourceVersion ist (om_ResourceVersion (ist_ObjectMeta ist)) = ist"
  by (simp add: with_ResourceVersion_def)

lemma with_ResourceVersion_names:
  "om_Namespace (ist_ObjectMeta (with_ResourceVersion ist rv)) = om_Namespace (ist_ObjectMeta ist)"
  "om_Name (ist_ObjectMeta (with_ResourceVersion ist rv)) = om_Name (ist_ObjectMeta ist)"
  by (simp_all add: with_ResourceVersion_def)

lemma imageStreamTag_names:
  "om_Namespace (ist_ObjectMeta (imageStreamTag d s fromImage)) = namespace s"
  "om_Name (ist_ObjectMeta (imageStreamTag d s fromImage)) = target_name s"
  by (simp_all add: imageStreamTag_def target_name_def)

lemma imageStreamTag_Tag_inject:
  "ist_Tag (imageStreamTag d s a) = ist_Tag (imageStreamTag d s b) \<longleftrightarrow> a = b"
  by (simp add: imageStreamTag_def)

subsection \<open>The closure of Run and the retry loop\<close>

text \<open>
  One run of the closure is one fetch-and-update on the desired resource: the shared
  variable differs from the desired resource in its concurrency token only, and the
  closure overwrites that token before it updates.
\<close>

lemma Run_update_fetch_and_update:
  assumes "om_Namespace (ist_ObjectMeta desired) = namespace s"
      and "om_Name (ist_ObjectMeta desired) = target_name s"
  shows "\<exists>rv' evs.
           Run_update s (namespace s) (with_ResourceVersion desired rv, w) =
             (fst (fetch_and_update s desired w),
              (with_ResourceVersion desired rv', snd (fetch_and_update s desired w)), evs)
           \<and> (\<forall>e\<in>set evs. in_place d s e)
           \<and> length (filter is_update evs) \<le> 1
           \<and> (\<forall>ns j. IstUpdate ns j \<in> set evs \<longrightarrow> (\<exists>rv. j = with_ResourceVersion desired rv))
           \<and> (\<exists>evs'. evs = IstGet (namespace s) (target_name s) # evs')"
proof (cases "ist_Get (istClient s) (namespace s) (target_name s) w")
  case (Pair r w1)
  show ?thesis
  proof (cases r)
    case (Inl err)
    with Pair assms show ?thesis
      by (auto simp add: Run_update_def fetch_and_update_def with_ResourceVersion_names Let_def)
  next
    case (Inr existing)
    let ?j = "with_ResourceVersion desired (om_ResourceVersion (ist_ObjectMeta existing))"
    have j: "(with_ResourceVersion desired rv)\<lparr>ist_ObjectMeta :=
               (ist_ObjectMeta (with_ResourceVersion desired rv))
                 \<lparr>om_ResourceVersion := om_ResourceVersion (ist_ObjectMeta existing)\<rparr>\<rparr> = ?j"
      by (simp add: with_ResourceVersion_def)
    obtain r2 w2 where u: "ist_Update (istClient s) (namespace s) ?j w1 = (r2, w2)"
      by (cases "ist_Update (istClient s) (namespace s) ?j w1")
    show ?thesis
    proof (cases r2)
      case (Inl err)
      with Pair Inr u j assms show ?thesis
        by (auto simp add: Run_update_def fetch_and_update_def with_ResourceVersion_names Let_def)
    next
      case (Inr res)
      with Pair \<open>r = Inr existing\<close> u j assms show ?thesis
        by (auto simp add: Run_update_def fetch_and_update_def with_ResourceVersion_names Let_def)
    qed
  qed
qed

lemma Run_update_found:
  assumes "om_Namespace (ist_ObjectMeta desired) = namespace s"
      and "om_Name (ist_ObjectMeta desired) = target_name s"
      and "ist_Get (istClient s) (namespace s) (target_name s) w = (Inr existing, w1)"
  shows "snd (snd (Run_update s (namespace s) (with_ResourceVersion desired rv, w))) =
               [IstGet (namespace s) (target_name s),
                IstUpdate (namespace s)
                  (with_ResourceVersion desired (om_ResourceVersion (ist_ObjectMeta existing)))]"
proof -
  have j: "(with_ResourceVersion desired rv)\<lparr>ist_ObjectMeta :=
               (ist_ObjectMeta (with_ResourceVersion desired rv))
                 \<lparr>om_ResourceVersion := om_ResourceVersion (ist_ObjectMeta existing)\<rparr>\<rparr> =
           with_ResourceVersion desired (om_ResourceVersion (ist_ObjectMeta existing))"
    by (simp add: with_ResourceVersion_def)
  from assms show ?thesis
    by (simp add: Run_update_def with_ResourceVersion_names Let_def j split: prod.splits sum.splits)
qed

text \<open>
  Whatever the client answers, the loop makes at most \<open>n\<close> updates, each of them on the
  desired resource under some token, and every call is in place.
\<close>

lemma retry_loop_events:
  assumes "om_Namespace (ist_ObjectMeta desired) = namespace s"
      and "om_Name (ist_ObjectMeta desired) = target_name s"
  shows "\<exists>r rv' w' evs.
           retry_loop n b (Run_update s (namespace s)) lastErr (with_ResourceVersion desired rv, w) =
             (r, (with_ResourceVersion desired rv', w'), evs)
           \<and> (\<forall>e\<in>set evs. in_place d s e)
           \<and> length (filter is_update evs) \<le> n
           \<and> (\<forall>ns j. IstUpdate ns j \<in> set evs \<longrightarrow> (\<exists>rv. j = with_ResourceVersion desired rv))"
proof (induction n arbitrary: b lastErr rv w)
  case 0
  show ?case by auto
next
  case (Suc n)
  obtain rv1 evs1 where
    step: "Run_update s (namespace s) (with_ResourceVersion desired rv, w) =
             (fst (fetch_and_update s desired w),
              (with_ResourceVersion desired rv1, snd (fetch_and_update s desired w)), evs1)"
    and ev1: "\<forall>e\<in>set evs1. in_place d s e" "length (filter is_update evs1) \<le> 1"
      "\<forall>ns j. IstUpdate ns j \<in> set evs1 \<longrightarrow> (\<exists>rv. j = with_ResourceVersion desired rv)"
    using Run_update_fetch_and_update [OF assms, of rv w d] by blast
  show ?case
  proof (cases "fst (fetch_and_update s desired w)")
    case None
    with step ev1 show ?thesis by auto
  next
    case (Some err)
    show ?thesis
    proof (cases "IsConflict err")
      case False
      with Some step ev1 show ?thesis by auto
    next
      case True
      obtain r rv2 w2 evs2 where
        rest: "retry_loop n True (Run_update s (namespace s)) (Some err)
                 (with_ResourceVersion desired rv1, snd (fetch_and_update s desired w)) =
                 (r, (with_ResourceVersion desired rv2, w2), evs2)"
        and ev2: "\<forall>e\<in>set evs2. in_place d s e" "length (filter is_update evs2) \<le> n"
          "\<forall>ns j. IstUpdate ns j \<in> set evs2 \<longrightarrow> (\<exists>rv. j = with_ResourceVersion desired rv)"
        using Suc.IH [of True "Some err" rv1 "snd (fetch_and_update s desired w)"] by blast
      from ev1 ev2 have "length (filter is_update (evs1 @ evs2)) \<le> Suc n" by simp
      with Some True step rest ev1 ev2 show ?thesis by auto
    qed
  qed
qed

text \<open>
  After \<open>k\<close> conflicts in a row, with a try left, the next fetch-and-update decides the
  result unless it is a conflict too.
\<close>

lemma retry_loop_settles:
  assumes "om_Namespace (ist_ObjectMeta desired) = namespace s"
      and "om_Name (ist_ObjectMeta desired) = target_name s"
  shows "after_conflicts k s desired w = Some wk \<Longrightarrow> k < n \<Longrightarrow>
         fetch_and_update s desired wk = (r, w') \<Longrightarrow> (\<forall>e. r = Some e \<longrightarrow> \<not> IsConflict e) \<Longrightarrow>
         \<exists>i evs. retry_loop n b (Run_update s (namespace s)) lastErr (with_ResourceVersion desired rv, w) =
                   (r, (i, w'), evs)"
proof (induction k arbitrary: n b lastErr rv w)
  case 0
  then obtain m where n: "n = Suc m" by (cases n) auto
  from 0 have w: "wk = w" by simp
  obtain rv1 evs1 where
    step: "Run_update s (namespace s) (with_ResourceVersion desired rv, w) =
             (fst (fetch_and_update s desired w),
              (with_ResourceVersion desired rv1, snd (fetch_and_update s desired w)), evs1)"
    using Run_update_fetch_and_update [OF assms, of rv w] by blast
  from 0 w step n show ?case by (cases r) auto
next
  case (Suc k)
  then obtain m where n: "n = Suc m" and m: "k < m" by (cases n) auto
  obtain rv1 evs1 where
    step: "Run_update s (namespace s) (with_ResourceVersion desired rv, w) =
             (fst (fetch_and_update s desired w),
              (with_ResourceVersion desired rv1, snd (fetch_and_update s desired w)), evs1)"
    using Run_update_fetch_and_update [OF assms, of rv w] by blast
  from Suc.prems(1) obtain err w1 where
    f: "fetch_and_update s desired w = (Some err, w1)" and c: "IsConflict err"
    and a: "after_conflicts k s desired w1 = Some wk"
    by (auto split: prod.splits option.splits if_splits)
  obtain i evs where
    "retry_loop m True (Run_update s (namespace s)) (Some err) (with_ResourceVersion desired rv1, w1) =
       (r, (i, w'), evs)"
    using Suc.IH [OF a m Suc.prems(3) Suc.prems(4), of True "Some err" rv1] by blast
  with step f c n show ?case by auto
qed

text \<open>When all \<open>n\<close> tries end in a conflict, the loop gives up with a conflict.\<close>

lemma retry_loop_exhausted:
  assumes "om_Namespace (ist_ObjectMeta desired) = namespace s"
      and "om_Name (ist_ObjectMeta desired) = target_name s"
  shows "after_conflicts n s desired w = Some w' \<Longrightarrow>
         \<exists>r i evs. retry_loop n b (Run_update s (namespace s)) lastErr (with_ResourceVersion desired rv, w) =
                     (r, (i, w'), evs)
                   \<and> (if n = 0 then r = lastErr else \<exists>e. r = Some e \<and> IsConflict e)"
proof (induction n arbitrary: b lastErr rv w)
  case 0
  then show ?case by simp
next
  case (Suc n)
  obtain rv1 evs1 where
    step: "Run_update s (namespace s) (with_ResourceVersion desired rv, w) =
             (fst (fetch_and_update s desired w),
              (with_ResourceVersion desired rv1, snd (fetch_and_update s desired w)), evs1)"
    using Run_update_fetch_and_update [OF assms, of rv w] by blast
  from Suc.prems obtain err w1 where
    f: "fetch_and_update s desired w = (Some err, w1)" and c: "IsConflict err"
    and a: "after_conflicts n s desired w1 = Some w'"
    by (auto split: prod.splits option.splits if_splits)
  obtain r i evs where
    rest: "retry_loop n True (Run_update s (namespace s)) (Some err) (with_ResourceVersion desired rv1, w1) =
       (r, (i, w'), evs)"
    and r: "if n = 0 then r = Some err else \<exists>e. r = Some e \<and> IsConflict e"
    using Suc.IH [OF a, of True "Some err" rv1] by blast
  from r c have "\<exists>e. r = Some e \<and> IsConflict e" by (auto split: if_splits)
  with step f c rest show ?case by auto
qed

lemma Run_update_one_get:
  "length (filter is_get (snd (snd (Run_update s ns (ist, w))))) = 1
   \<and> filter is_sleep (snd (snd (Run_update s ns (ist, w)))) = []"
  by (simp add: Run_update_def Let_def split: prod.splits sum.splits)

text \<open>
  Each try makes one fetch, and the loop sleeps before every try but the first: it fetches
  once more than it sleeps.
\<close>

lemma retry_loop_backoff:
  "0 < n \<Longrightarrow>
   length (filter is_get (snd (snd (retry_loop n b (Run_update s ns) lastErr st))))
     + (if b then 1 else 0) =
   Suc (length (filter is_sleep (snd (snd (retry_loop n b (Run_update s ns) lastErr st)))))"
proof (induction n arbitrary: b lastErr st)
  case 0
  then show ?case by simp
next
  case (Suc n)
  obtain ist w where st: "st = (ist, w)" by (cases st)
  obtain r st1 evs where f: "Run_update s ns (ist, w) = (r, st1, evs)"
    by (cases "Run_update s ns (ist, w)")
  with Run_update_one_get [of s ns ist w]
  have one: "length (filter is_get evs) = 1" "filter is_sleep evs = []" by simp_all
  show ?case
  proof (cases r)
    case None
    with st f one show ?thesis by simp
  next
    case (Some err)
    show ?thesis
    proof (cases "IsConflict err \<and> 0 < n")
      case False
      with st f one Some show ?thesis
        by (cases n) (auto split: prod.splits)
    next
      case True
      then have c: "IsConflict err" and n: "0 < n" by simp_all
      obtain r2 st2 evs2 where l: "retry_loop n True (Run_update s ns) (Some err) st1 = (r2, st2, evs2)"
        by (cases "retry_loop n True (Run_update s ns) (Some err) st1")
      from Suc.IH [OF n, of True "Some err" st1] l
      have "length (filter is_get evs2) = length (filter is_sleep evs2)" by simp
      with st f one Some c l show ?thesis by simp
    qed
  qed
qed

lemma retry_loop_first_fetch:
  assumes "om_Namespace (ist_ObjectMeta desired) = namespace s"
      and "om_Name (ist_ObjectMeta desired) = target_name s"
      and "0 < n"
  shows "\<exists>evs. snd (snd (retry_loop n False (Run_update s (namespace s)) lastErr
                          (with_ResourceVersion desired rv, w))) =
               IstGet (namespace s) (target_name s) # evs"
proof -
  from assms(3) obtain m where n: "n = Suc m" by (cases n) auto
  obtain rv1 evs1 where
    step: "Run_update s (namespace s) (with_ResourceVersion desired rv, w) =
             (fst (fetch_and_update s desired w),
              (with_ResourceVersion desired rv1, snd (fetch_and_update s desired w)),
              IstGet (namespace s) (target_name s) # evs1)"
    using Run_update_fetch_and_update [OF assms(1,2), of rv w] by blast
  show ?thesis unfolding n
    by (simp add: step split: option.splits prod.splits)
qed

lemma retry_loop_first_update:
  assumes "om_Namespace (ist_ObjectMeta desired) = namespace s"
      and "om_Name (ist_ObjectMeta desired) = target_name s"
      and "0 < n"
      and "ist_Get (istClient s) (namespace s) (target_name s) w = (Inr existing, w1)"
  shows "\<exists>evs. snd (snd (retry_loop n False (Run_update s (namespace s)) lastErr
                          (with_ResourceVersion desired rv, w))) =
               IstGet (namespace s) (target_name s)
               # IstUpdate (namespace s)
                   (with_ResourceVersion desired (om_ResourceVersion (ist_ObjectMeta existing)))
               # evs"
proof -
  from assms(3) obtain m where n: "n = Suc m" by (cases n) auto
  from Run_update_found [OF assms(1,2,4), of rv]
  have ev: "snd (snd (Run_update s (namespace s) (with_ResourceVersion desired rv, w))) =
               [IstGet (namespace s) (target_name s),
                IstUpdate (namespace s)
                  (with_ResourceVersion desired (om_ResourceVersion (ist_ObjectMeta existing)))]"
    by simp
  obtain r st evs where f: "Run_update s (namespace s) (with_ResourceVersion desired rv, w) = (r, st, evs)"
    by (cases "Run_update s (namespace s) (with_ResourceVersion desired rv, w)")
  with ev show ?thesis unfolding n
    by (simp split: option.splits prod.splits)
qed

lemma Run_already_exists:
  assumes "ist_Get (istClient s) (js_Namespace (jobSpec s)) (source_name d s) w = (Inr from, w1)"
      and "desired = imageStreamTag d s (om_Name (img_ObjectMeta (ist_Image from)))"
      and "ist_Create (istClient s) (namespace s) desired w1 = (Inl err, w2)"
      and "IsAlreadyExists err"
      and "retry_loop (Steps (DefaultRetry d)) False (Run_update s (namespace s)) None
             (with_ResourceVersion desired rv0, w2) = (r, (i, w3), evs)"
      and "rv0 = om_ResourceVersion (ist_ObjectMeta desired)"
  shows "Run d s False w =
           (map_option (\<lambda>e. ''could not update output imagestreamtag: '' @ Message e) r, w3,
            [Run_log d s, IstGet (js_Namespace (jobSpec s)) (source_name d s),
             IstCreate (namespace s) desired] @ evs)"
  using assms
  by (cases r) (simp_all add: Run_def RetryOnConflict_def source_name_def with_ResourceVersion_same Let_def)

text \<open>
  When the source resolves, \<open>Run\<close> goes on to create the desired resource in the effective
  namespace; when the create answers "already exists" it goes on to fetch the target
  there, and to update it there when the fetch succeeds.
\<close>

lemma Run_creates:
  assumes "ist_Get (istClient s) (js_Namespace (jobSpec s)) (source_name d s) w = (Inr from, w1)"
  shows "\<exists>evs. snd (snd (Run d s False w)) =
           [Run_log d s, IstGet (js_Namespace (jobSpec s)) (source_name d s),
            IstCreate (namespace s) (imageStreamTag d s (om_Name (img_ObjectMeta (ist_Image from))))]
           @ evs"
proof -
  define desired where "desired = imageStreamTag d s (om_Name (img_ObjectMeta (ist_Image from)))"
  note names = imageStreamTag_names [of d s "om_Name (img_ObjectMeta (ist_Image from))", folded desired_def]
  obtain r2 w2 where c: "ist_Create (istClient s) (namespace s) desired w1 = (r2, w2)"
    by (cases "ist_Create (istClient s) (namespace s) desired w1")
  show ?thesis
  proof (cases r2)
    case (Inr res)
    with assms c show ?thesis
      by (simp add: Run_def source_name_def Let_def desired_def)
  next
    case (Inl err)
    show ?thesis
    proof (cases "IsAlreadyExists err")
      case False
      with assms c Inl show ?thesis
        by (simp add: Run_def source_name_def Let_def desired_def)
    next
      case True
      obtain r3 rv' w3 evs where
        loop: "retry_loop (Steps (DefaultRetry d)) False (Run_update s (namespace s)) None
                 (with_ResourceVersion desired (om_ResourceVersion (ist_ObjectMeta desired)), w2) =
                 (r3, (with_ResourceVersion desired rv', w3), evs)"
        using retry_loop_events [OF names, of "Steps (DefaultRetry d)" False None
            "om_ResourceVersion (ist_ObjectMeta desired)" w2 d] by blast
      from Run_already_exists [OF assms desired_def c [unfolded Inl] True loop refl]
      show ?thesis by (simp add: desired_def)
    qed
  qed
qed

lemma Run_fetches_target:
  assumes "ist_Get (istClient s) (js_Namespace (jobSpec s)) (source_name d s) w = (Inr from, w1)"
      and "desired = imageStreamTag d s (om_Name (img_ObjectMeta (ist_Image from)))"
      and "ist_Create (istClient s) (namespace s) desired w1 = (Inl err, w2)"
      and "IsAlreadyExists err"
      and "0 < Steps (DefaultRetry d)"
  shows "\<exists>evs. snd (snd (Run d s False w)) =
           [Run_log d s, IstGet (js_Namespace (jobSpec s)) (source_name d s),
            IstCreate (namespace s) desired, IstGet (namespace s) (target_name s)] @ evs"
    and "ist_Get (istClient s) (namespace s) (target_name s) w2 = (Inr existing, wg) \<Longrightarrow>
         \<exists>evs. snd (snd (Run d s False w)) =
           [Run_log d s, IstGet (js_Namespace (jobSpec s)) (source_name d s),
            IstCreate (namespace s) desired, IstGet (namespace s) (target_name s),
            IstUpdate (namespace s)
              (with_ResourceVersion desired (om_ResourceVersion (ist_ObjectMeta existing)))] @ evs"
proof -
  note names = imageStreamTag_names [of d s "om_Name (img_ObjectMeta (ist_Image from))", folded assms(2)]
  let ?rv0 = "om_ResourceVersion (ist_ObjectMeta desired)"
  obtain r rv' w3 evs where
    loop: "retry_loop (Steps (DefaultRetry d)) False (Run_update s (namespace s)) None
             (with_ResourceVersion desired ?rv0, w2) = (r, (with_ResourceVersion desired rv', w3), evs)"
    using retry_loop_events [OF names, of "Steps (DefaultRetry d)" False None ?rv0 w2 d] by blast
  note run = Run_already_exists [OF assms(1-4) loop refl]
  from retry_loop_first_fetch [OF names assms(5), of None ?rv0 w2] loop
  obtain evs' where "evs = IstGet (namespace s) (target_name s) # evs'" by auto
  with run show "\<exists>evs. snd (snd (Run d s False w)) =
           [Run_log d s, IstGet (js_Namespace (jobSpec s)) (source_name d s),
            IstCreate (namespace s) desired, IstGet (namespace s) (target_name s)] @ evs"
    by simp
  assume g: "ist_Get (istClient s) (namespace s) (target_name s) w2 = (Inr existing, wg)"
  from retry_loop_first_update [OF names assms(5) g, of None ?rv0] loop
  obtain evs' where
    "evs = IstGet (namespace s) (target_name s)
           # IstUpdate (namespace s)
               (with_ResourceVersion desired (om_ResourceVersion (ist_ObjectMeta existing)))
           # evs'"
    by auto
  with run show "\<exists>evs. snd (snd (Run d s False w)) =
           [Run_log d s, IstGet (js_Namespace (jobSpec s)) (source_name d s),
            IstCreate (namespace s) desired, IstGet (namespace s) (target_name s),
            IstUpdate (namespace s)
              (with_ResourceVersion desired (om_ResourceVersion (ist_ObjectMeta existing)))] @ evs"
    by simp
qed

lemma Run_in_place:
  "\<forall>e\<in>set (snd (snd (Run d s dry w))). in_place d s e"
proof -
  have lg: "in_place d s (Run_log d s)" by (simp add: Run_log_def Let_def)
  show ?thesis
  proof (cases dry)
    case True
    with lg show ?thesis
      by (auto simp add: Run_def Let_def split: sum.splits)
  next
    case False
    obtain r w1 where g: "ist_Get (istClient s) (js_Namespace (jobSpec s)) (source_name d s) w = (r, w1)"
      by (cases "ist_Get (istClient s) (js_Namespace (jobSpec s)) (source_name d s) w")
    show ?thesis
    proof (cases r)
      case (Inl err)
      with False g lg show ?thesis
        by (auto simp add: Run_def source_name_def Let_def)
    next
      case (Inr "from")
      define desired where "desired = imageStreamTag d s (om_Name (img_ObjectMeta (ist_Image from)))"
      note names = imageStreamTag_names [of d s "om_Name (img_ObjectMeta (ist_Image from))", folded desired_def]
      obtain r2 w2 where c: "ist_Create (istClient s) (namespace s) desired w1 = (r2, w2)"
        by (cases "ist_Create (istClient s) (namespace s) desired w1")
      have pre: "in_place d s (IstGet (js_Namespace (jobSpec s)) (source_name d s))"
        "in_place d s (IstCreate (namespace s) desired)"
        using names by simp_all
      show ?thesis
      proof (cases r2)
        case (Inr res)
        with False g \<open>r = Inr from\<close> c lg pre show ?thesis
          by (auto simp add: Run_def source_name_def Let_def desired_def)
      next
        case (Inl err)
        show ?thesis
        proof (cases "IsAlreadyExists err")
          case no: False
          with False g \<open>r = Inr from\<close> c Inl lg pre show ?thesis
            by (auto simp add: Run_def source_name_def Let_def desired_def)
        next
          case True
          obtain r3 rv' w3 evs where
            loop: "retry_loop (Steps (DefaultRetry d)) False (Run_update s (namespace s)) None
                     (with_ResourceVersion desired (om_ResourceVersion (ist_ObjectMeta desired)), w2) =
                     (r3, (with_ResourceVersion desired rv', w3), evs)"
            and inpl: "\<forall>e\<in>set evs. in_place d s e"
            using retry_loop_events [OF names, of "Steps (DefaultRetry d)" False None
                "om_ResourceVersion (ist_ObjectMeta desired)" w2 d] by blast
          from g [unfolded \<open>r = Inr from\<close>] c [unfolded Inl]
          have "Run d s False w =
                  (map_option (\<lambda>e. ''could not update output imagestreamtag: '' @ Message e) r3, w3,
                   [Run_log d s, IstGet (js_Namespace (jobSpec s)) (source_name d s),
                    IstCreate (namespace s) desired] @ evs)"
            by (rule Run_already_exists [OF _ desired_def _ True loop refl])
          with False lg pre inpl show ?thesis by auto
        qed
      qed
    qed
  qed
qed

subsection \<open>Done when the target is found\<close>

lemma Done_found:
  assumes "ist_Get (istClient s) (namespace s) (target_name s) w = (Inr actual, w1)"
      and "ist_Get (istClient s) (js_Namespace (jobSpec s)) (source_name d s) w1 = (Inr from, w2)"
  shows "Done d s w =
           ((ist_Tag actual = ist_Tag (imageStreamTag d s (om_Name (img_ObjectMeta (ist_Image from)))),
             None), w2,
            [Log (''Checking for existence of '' @ namespace s @ ''/'' @ target_name s),
             IstGet (namespace s) (target_name s),
             IstGet (js_Namespace (jobSpec s)) (source_name d s)])"
  using assms by (simp add: Done_def target_name_def source_name_def Let_def)

subsection \<open>The exported function when the image stream is found\<close>

lemma Provides_param_found:
  assumes "is_Get (isClient s) (namespace s) (to_Name (To (config s))) w = (Inr is, w1)"
  shows "Provides_param s w =
           ((if iss_PublicDockerImageRepository (is_Status is) \<noteq> []
             then (iss_PublicDockerImageRepository (is_Status is) @ '':'' @ to_Tag (To (config s)), None)
             else if iss_DockerImageRepository (is_Status is) \<noteq> []
             then (iss_DockerImageRepository (is_Status is) @ '':'' @ to_Tag (To (config s)), None)
             else ([], Some (''image stream '' @ to_As (To (config s))
                             @ '' has no accessible image registry value''))),
            w1, [IsGet (namespace s) (to_Name (To (config s)))])"
  using assms by (simp add: Provides_param_def Let_def)

subsection \<open>The in-memory store\<close>

lemma step0_names:
  "namespace step0 = ''ci''" "target_name step0 = ''stable:latest''"
  "js_Namespace (jobSpec step0) = ''ci''" "source_name deps0 step0 = ''pipeline:builder''"
  by (simp_all add: step0_def deps0_def namespace_def target_name_def source_name_def)

lemma step2_names:
  "namespace step2 = ''ocp''" "target_name step2 = ''stable:latest''"
  "js_Namespace (jobSpec step2) = ''ci''" "source_name deps0 step2 = ''pipeline:builder''"
  "to_Name (To (config step2)) = ''stable''" "to_Tag (To (config step2)) = ''latest''"
  "istClient step2 = fake_istClient" "isClient step2 = fake_isClient"
  by (simp_all add: step2_def step0_def deps0_def namespace_def target_name_def source_name_def)


lemma fake_target_only:
  "ist_Get (istClient step0) (namespace step0) (target_name step0)
     (world0 [stored_tag img' rv] n ro) =
   (Inr (snd (stored_tag img' rv)), world0 [stored_tag img' rv] n ro)"
  by (simp add: step0_def namespace_def target_name_def fake_istClient_def world0_def stored_tag_def)

lemma fake_source_missing:
  "ist_Get (istClient step0) (js_Namespace (jobSpec step0)) (source_name deps0 step0)
     (world0 [stored_tag img' rv] n ro) =
   (Inl \<lparr>Reason = StatusReasonNotFound, Message = ''not found''\<rparr>, world0 [stored_tag img' rv] n ro)"
  by (simp add: step0_def deps0_def source_name_def fake_istClient_def world0_def stored_tag_def)

lemma fake_source:
  "ist_Get (istClient step0) (js_Namespace (jobSpec step0)) (source_name deps0 step0)
     (world0 (source_tag img # tags) n ro) = (Inr (snd (source_tag img)), world0 (source_tag img # tags) n ro)"
  by (simp add: step0_def deps0_def source_name_def fake_istClient_def world0_def source_tag_def)

lemma fake_target:
  "ist_Get (istClient step0) (namespace step0) (target_name step0)
     (world0 [source_tag img, stored_tag img' rv] n ro) =
   (Inr (snd (stored_tag img' rv)), world0 [source_tag img, stored_tag img' rv] n ro)"
  by (simp add: step0_def namespace_def target_name_def fake_istClient_def world0_def
        source_tag_def stored_tag_def)

lemma fake_stream:
  "is_Get (isClient step1) (namespace step1) (to_Name (To (config step1))) (world1 [stream0 i e]) =
     (Inr (snd (stream0 i e)), world1 [stream0 i e])"
  by (simp add: step1_def step0_def namespace_def fake_isClient_def world1_def stream0_def)

lemma source_tag_image:
  "om_Name (img_ObjectMeta (ist_Image (snd (source_tag img)))) = img"
  by (simp add: source_tag_def Image_zero_def ObjectMeta_zero_def)

lemma stored_tag_Tag:
  "ist_Tag (snd (stored_tag img rv)) = ist_Tag (imageStreamTag deps0 step0 img)"
  by (simp add: stored_tag_def with_ResourceVersion_def)

section \<open>Properties\<close>

text \<open>
  C1. In a run that is not a dry run, where the source resolves and the create of the
  desired tag fails, with a retry policy of at least one try: if the create error is not
  "already exists", \<open>Run\<close> returns the error "could not create output imagestreamtag"
  and makes no further call. If it is "already exists", \<open>Run\<close> fetches the stored tag at
  the target; when that fetch succeeds the next call is an update of the desired resource
  carrying the stored concurrency token and nothing else of the stored tag; every update
  \<open>Run\<close> makes is such an update in the effective namespace, there are at most
  \<open>Steps\<close> of them, and \<open>Run\<close> sleeps before every fetch-and-update but the first (its
  fetches are the resolution, the first fetch of the target, and one for each sleep). After \<open>k < Steps\<close> fetch-and-updates that ended in a conflict, a
  fetch-and-update that succeeds makes \<open>Run\<close> return no error, and one that fails with
  another error makes \<open>Run\<close> return "could not update output imagestreamtag" with that
  error; when all \<open>Steps\<close> tries end in a conflict, \<open>Run\<close> returns "could not update
  output imagestreamtag" with a conflict.
\<close>

theorem Run_create_or_update:
  assumes "0 < Steps (DefaultRetry d)"
      and "ist_Get (istClient s) (js_Namespace (jobSpec s)) (source_name d s) w = (Inr from, w1)"
      and "desired = imageStreamTag d s (om_Name (img_ObjectMeta (ist_Image from)))"
      and "ist_Create (istClient s) (namespace s) desired w1 = (Inl err, w2)"
  shows "(\<not> IsAlreadyExists err \<longrightarrow>
            Run d s False w =
              (Some (''could not create output imagestreamtag: '' @ Message err), w2,
               [Run_log d s, IstGet (js_Namespace (jobSpec s)) (source_name d s),
                IstCreate (namespace s) desired]))
         \<and> (IsAlreadyExists err \<longrightarrow>
              (\<exists>evs. snd (snd (Run d s False w)) =
                       [Run_log d s, IstGet (js_Namespace (jobSpec s)) (source_name d s),
                        IstCreate (namespace s) desired, IstGet (namespace s) (target_name s)] @ evs)
              \<and> (ist_Get (istClient s) (namespace s) (target_name s) w2 = (Inr existing, wg) \<longrightarrow>
                  (\<exists>evs. snd (snd (Run d s False w)) =
                       [Run_log d s, IstGet (js_Namespace (jobSpec s)) (source_name d s),
                        IstCreate (namespace s) desired, IstGet (namespace s) (target_name s),
                        IstUpdate (namespace s)
                          (with_ResourceVersion desired (om_ResourceVersion (ist_ObjectMeta existing)))]
                       @ evs))
              \<and> (\<forall>ns j. IstUpdate ns j \<in> set (snd (snd (Run d s False w))) \<longrightarrow>
                          ns = namespace s \<and> (\<exists>rv. j = with_ResourceVersion desired rv))
              \<and> length (filter is_update (snd (snd (Run d s False w)))) \<le> Steps (DefaultRetry d)
              \<and> length (filter is_get (snd (snd (Run d s False w)))) =
                  length (filter is_sleep (snd (snd (Run d s False w)))) + 2
              \<and> (k < Steps (DefaultRetry d) \<and> after_conflicts k s desired w2 = Some wk
                   \<and> fetch_and_update s desired wk = (None, wa) \<longrightarrow>
                  fst (Run d s False w) = None \<and> fst (snd (Run d s False w)) = wa)
              \<and> (kb < Steps (DefaultRetry d) \<and> after_conflicts kb s desired w2 = Some wb
                   \<and> fetch_and_update s desired wb = (Some e, wc) \<and> \<not> IsConflict e \<longrightarrow>
                  fst (Run d s False w) = Some (''could not update output imagestreamtag: '' @ Message e)
                  \<and> fst (snd (Run d s False w)) = wc)
              \<and> (after_conflicts (Steps (DefaultRetry d)) s desired w2 = Some wd \<longrightarrow>
                  (\<exists>c. IsConflict c
                       \<and> fst (Run d s False w) =
                           Some (''could not update output imagestreamtag: '' @ Message c))
                  \<and> fst (snd (Run d s False w)) = wd))"
proof -
  note names = imageStreamTag_names [of d s "om_Name (img_ObjectMeta (ist_Image from))", folded assms(3)]
  let ?rv0 = "om_ResourceVersion (ist_ObjectMeta desired)"
  let ?loop = "retry_loop (Steps (DefaultRetry d)) False (Run_update s (namespace s)) None
                 (with_ResourceVersion desired ?rv0, w2)"
  let ?msg = "\<lambda>e. ''could not update output imagestreamtag: '' @ Message e"
  let ?pre = "[Run_log d s, IstGet (js_Namespace (jobSpec s)) (source_name d s),
               IstCreate (namespace s) desired]"
  have run: "Run d s False w = (map_option ?msg r, w3, ?pre @ evs)"
    if "IsAlreadyExists err" and "?loop = (r, (i, w3), evs)" for r i w3 evs
    using Run_already_exists [OF assms(2-4) that(1) that(2) refl] by simp
  obtain r rv' w3 evs where
    loop: "?loop = (r, (with_ResourceVersion desired rv', w3), evs)"
    and inpl: "\<forall>e\<in>set evs. in_place d s e"
    and bound: "length (filter is_update evs) \<le> Steps (DefaultRetry d)"
    and upd: "\<forall>ns j. IstUpdate ns j \<in> set evs \<longrightarrow> (\<exists>rv. j = with_ResourceVersion desired rv)"
    using retry_loop_events [OF names, of "Steps (DefaultRetry d)" False None ?rv0 w2 d] by blast
  show ?thesis
  proof (intro conjI impI)
    assume "\<not> IsAlreadyExists err"
    with assms(2-4) show "Run d s False w =
        (Some (''could not create output imagestreamtag: '' @ Message err), w2,
         [Run_log d s, IstGet (js_Namespace (jobSpec s)) (source_name d s),
          IstCreate (namespace s) desired])"
      by (simp add: Run_def source_name_def Let_def)
  next
    assume ae: "IsAlreadyExists err"
    from retry_loop_first_fetch [OF names assms(1), of None ?rv0 w2] loop
    obtain evs' where "evs = IstGet (namespace s) (target_name s) # evs'" by auto
    with run [OF ae loop] show "\<exists>evs. snd (snd (Run d s False w)) =
                   [Run_log d s, IstGet (js_Namespace (jobSpec s)) (source_name d s),
                    IstCreate (namespace s) desired, IstGet (namespace s) (target_name s)] @ evs"
      by simp
  next
    assume ae: "IsAlreadyExists err"
    assume g: "ist_Get (istClient s) (namespace s) (target_name s) w2 = (Inr existing, wg)"
    from retry_loop_first_update [OF names assms(1) g, of None ?rv0] loop
    obtain evs' where
      "evs = IstGet (namespace s) (target_name s)
             # IstUpdate (namespace s)
                 (with_ResourceVersion desired (om_ResourceVersion (ist_ObjectMeta existing)))
             # evs'"
      by auto
    with run [OF ae loop] show "\<exists>evs. snd (snd (Run d s False w)) =
                   [Run_log d s, IstGet (js_Namespace (jobSpec s)) (source_name d s),
                    IstCreate (namespace s) desired, IstGet (namespace s) (target_name s),
                    IstUpdate (namespace s)
                      (with_ResourceVersion desired (om_ResourceVersion (ist_ObjectMeta existing)))]
                   @ evs"
      by simp
  next
    assume ae: "IsAlreadyExists err"
    show "\<forall>ns j. IstUpdate ns j \<in> set (snd (snd (Run d s False w))) \<longrightarrow>
                  ns = namespace s \<and> (\<exists>rv. j = with_ResourceVersion desired rv)"
    proof (intro allI impI)
      fix ns j
      assume "IstUpdate ns j \<in> set (snd (snd (Run d s False w)))"
      with run [OF ae loop] have m: "IstUpdate ns j \<in> set evs" by (auto simp add: Run_log_def Let_def)
      with inpl have "in_place d s (IstUpdate ns j)" by blast
      with m upd show "ns = namespace s \<and> (\<exists>rv. j = with_ResourceVersion desired rv)" by simp
    qed
  next
    assume ae: "IsAlreadyExists err"
    from run [OF ae loop] bound
    show "length (filter is_update (snd (snd (Run d s False w)))) \<le> Steps (DefaultRetry d)"
      by (simp add: Run_log_def Let_def)
  next
    assume ae: "IsAlreadyExists err"
    from retry_loop_backoff [OF assms(1), of False s "namespace s" None
        "(with_ResourceVersion desired ?rv0, w2)"] loop
    have "length (filter is_get evs) = Suc (length (filter is_sleep evs))" by simp
    with run [OF ae loop]
    show "length (filter is_get (snd (snd (Run d s False w)))) =
            length (filter is_sleep (snd (snd (Run d s False w)))) + 2"
      by (simp add: Run_log_def Let_def)
  next
    assume ae: "IsAlreadyExists err"
    assume h: "k < Steps (DefaultRetry d) \<and> after_conflicts k s desired w2 = Some wk
                 \<and> fetch_and_update s desired wk = (None, wa)"
    then obtain i' evs' where "?loop = (None, (i', wa), evs')"
      using retry_loop_settles [OF names, of k w2 wk "Steps (DefaultRetry d)" None wa False None ?rv0]
      by auto
    from run [OF ae this] show "fst (Run d s False w) = None" by simp
  next
    assume ae: "IsAlreadyExists err"
    assume h: "k < Steps (DefaultRetry d) \<and> after_conflicts k s desired w2 = Some wk
                 \<and> fetch_and_update s desired wk = (None, wa)"
    then obtain i' evs' where "?loop = (None, (i', wa), evs')"
      using retry_loop_settles [OF names, of k w2 wk "Steps (DefaultRetry d)" None wa False None ?rv0]
      by auto
    from run [OF ae this] show "fst (snd (Run d s False w)) = wa" by simp
  next
    assume ae: "IsAlreadyExists err"
    assume h: "kb < Steps (DefaultRetry d) \<and> after_conflicts kb s desired w2 = Some wb
                 \<and> fetch_and_update s desired wb = (Some e, wc) \<and> \<not> IsConflict e"
    then obtain i' evs' where "?loop = (Some e, (i', wc), evs')"
      using retry_loop_settles [OF names, of kb w2 wb "Steps (DefaultRetry d)" "Some e" wc False None ?rv0]
      by auto
    from run [OF ae this] show "fst (Run d s False w) = Some (?msg e)" by simp
  next
    assume ae: "IsAlreadyExists err"
    assume h: "kb < Steps (DefaultRetry d) \<and> after_conflicts kb s desired w2 = Some wb
                 \<and> fetch_and_update s desired wb = (Some e, wc) \<and> \<not> IsConflict e"
    then obtain i' evs' where "?loop = (Some e, (i', wc), evs')"
      using retry_loop_settles [OF names, of kb w2 wb "Steps (DefaultRetry d)" "Some e" wc False None ?rv0]
      by auto
    from run [OF ae this] show "fst (snd (Run d s False w)) = wc" by simp
  next
    assume ae: "IsAlreadyExists err"
    assume h: "after_conflicts (Steps (DefaultRetry d)) s desired w2 = Some wd"
    from retry_loop_exhausted [OF names h, of False None ?rv0] assms(1)
    obtain c i' evs' where l: "?loop = (Some c, (i', wd), evs')" and c: "IsConflict c"
      by auto
    from run [OF ae l] c
    show "\<exists>c. IsConflict c \<and> fst (Run d s False w) = Some (?msg c)"
      by auto
  next
    assume ae: "IsAlreadyExists err"
    assume h: "after_conflicts (Steps (DefaultRetry d)) s desired w2 = Some wd"
    from retry_loop_exhausted [OF names h, of False None ?rv0] assms(1)
    obtain c i' evs' where l: "?loop = (Some c, (i', wd), evs')"
      by auto
    from run [OF ae l] show "fst (snd (Run d s False w)) = wd"
      by simp
  qed
qed

theorem Run_create_or_update_witness:
  "fst (Run deps0 step0 False (world0 [source_tag ''sha256:a'', stored_tag ''sha256:b'' ''7''] 2 False)) = None
   \<and> fst (Run deps0 step0 False (world0 [source_tag ''sha256:a'', stored_tag ''sha256:b'' ''7''] 1 True)) =
       Some ''could not update output imagestreamtag: forbidden''
   \<and> (\<exists>c. IsConflict c \<and>
        fst (Run deps0 step0 False (world0 [source_tag ''sha256:a'', stored_tag ''sha256:b'' ''7''] 3 False)) =
          Some (''could not update output imagestreamtag: '' @ Message c))
   \<and> fst (Run deps0 step0 False (world0 [source_tag ''sha256:a''] 0 True)) =
       Some ''could not create output imagestreamtag: forbidden''
   \<and> IstUpdate ''ci'' (with_ResourceVersion (imageStreamTag deps0 step0 ''sha256:a'') ''7'') \<in>
       set (snd (snd (Run deps0 step0 False
                        (world0 [source_tag ''sha256:a'', stored_tag ''sha256:b'' ''7''] 2 False))))"
proof -
  let ?tags = "[source_tag ''sha256:a'', stored_tag ''sha256:b'' ''7'']"
  let ?desired = "imageStreamTag deps0 step0 ''sha256:a''"
  let ?ae = "\<lparr>Reason = StatusReasonAlreadyExists, Message = ''already exists''\<rparr>"
  let ?fb = "\<lparr>Reason = StatusReasonUnknown, Message = ''forbidden''\<rparr>"
  have st: "Steps (DefaultRetry deps0) = Suc (Suc (Suc 0))" by (simp add: deps0_def)
  then have steps: "0 < Steps (DefaultRetry deps0)" by simp
  have des: "?desired = imageStreamTag deps0 step0 (om_Name (img_ObjectMeta (ist_Image (snd (source_tag ''sha256:a'')))))"
    by (simp add: source_tag_def Image_zero_def ObjectMeta_zero_def)
  have cr: "ist_Create (istClient step0) (namespace step0) ?desired (world0 ?tags n ro) = (Inl ?ae, world0 ?tags n ro)" for n ro
    by (simp add: step0_def namespace_def fake_istClient_def world0_def source_tag_def stored_tag_def
          imageStreamTag_def ObjectMeta_zero_def)
  have cr': "ist_Create (istClient step0) (namespace step0) ?desired (world0 [source_tag ''sha256:a''] 0 True)
              = (Inl ?fb, world0 [source_tag ''sha256:a''] 0 True)"
    by (simp add: step0_def namespace_def fake_istClient_def world0_def source_tag_def
          imageStreamTag_def ObjectMeta_zero_def)
  have fau: "fetch_and_update step0 ?desired (world0 ?tags n ro) =
          (if 0 < n then (Some \<lparr>Reason = StatusReasonConflict, Message = ''conflict''\<rparr>, world0 ?tags (n - 1) ro)
           else if ro then (Some ?fb, world0 ?tags n ro)
           else (None, world0 ((((''ci'', ''stable:latest'')), with_ResourceVersion ?desired ''7'') # ?tags) n ro))" for n ro
    by (simp add: fetch_and_update_def step0_def namespace_def target_name_def fake_istClient_def world0_def
          source_tag_def stored_tag_def with_ResourceVersion_def imageStreamTag_def ObjectMeta_zero_def)
  have ac2: "after_conflicts 2 step0 ?desired (world0 ?tags 2 False) = Some (world0 ?tags 0 False)"
    by (simp add: numeral_2_eq_2 fau IsConflict_def)
  have ac1: "after_conflicts 1 step0 ?desired (world0 ?tags 1 True) = Some (world0 ?tags 0 True)"
    by (simp add: fau IsConflict_def)
  have ac3: "after_conflicts (Steps (DefaultRetry deps0)) step0 ?desired (world0 ?tags 3 False) = Some (world0 ?tags 0 False)"
    by (simp add: st fau IsConflict_def)
  note t = Run_create_or_update [OF steps fake_source des]
  have a: "fst (Run deps0 step0 False (world0 ?tags 2 False)) = None"
    using t [OF cr [of 2 False], where k = 2 and wk = "world0 ?tags 0 False"] ac2 fau [of 0 False]
    by (simp add: IsAlreadyExists_def st)
  have b: "fst (Run deps0 step0 False (world0 ?tags 1 True)) = Some ''could not update output imagestreamtag: forbidden''"
    using t [OF cr [of 1 True], where kb = 1 and wb = "world0 ?tags 0 True" and e = ?fb] ac1 fau [of 0 True]
    by (simp add: IsAlreadyExists_def IsConflict_def st)
  have c: "\<exists>c. IsConflict c \<and> fst (Run deps0 step0 False (world0 ?tags 3 False)) =
          Some (''could not update output imagestreamtag: '' @ Message c)"
    using t [OF cr [of 3 False], where wd = "world0 ?tags 0 False"] ac3
    by (simp add: IsAlreadyExists_def)
  have d: "fst (Run deps0 step0 False (world0 [source_tag ''sha256:a''] 0 True)) =
       Some ''could not create output imagestreamtag: forbidden''"
    using t [OF cr'] by (simp add: IsAlreadyExists_def)
  have rv: "om_ResourceVersion (ist_ObjectMeta (snd (stored_tag ''sha256:b'' ''7''))) = ''7''"
    by (simp add: stored_tag_def with_ResourceVersion_def)
  have ns: "namespace step0 = ''ci''" by (simp add: namespace_def step0_def)
  have aex: "IsAlreadyExists ?ae" by (simp add: IsAlreadyExists_def)
  note u = t [OF cr [of 2 False], where existing = "snd (stored_tag ''sha256:b'' ''7'')"
               and wg = "world0 ?tags 2 False", THEN conjunct2, THEN mp, OF aex,
               THEN conjunct2, THEN conjunct1, THEN mp,
               OF fake_target [of "''sha256:a''" "''sha256:b''" "''7''" 2 False]]
  have e: "IstUpdate ''ci'' (with_ResourceVersion ?desired ''7'') \<in>
             set (snd (snd (Run deps0 step0 False (world0 ?tags 2 False))))"
    using u by (auto simp add: rv ns)
  from a b c d e show ?thesis by simp
qed

text \<open>
  C2, as the claim states it, fails: a dry run resolves nothing. In a store where the
  source tag does not exist, so that resolving it would fail, the dry run makes no call,
  prints the desired resource and returns no error.
\<close>

theorem Run_dry_resolves_counterexample:
  "fst (ist_Get (istClient step0) ''ci'' ''pipeline:builder'' (world0 [] 0 False)) =
     Inl \<lparr>Reason = StatusReasonNotFound, Message = ''not found''\<rparr>
   \<and> Run deps0 step0 True (world0 [] 0 False) =
       (None, world0 [] 0 False,
        [Log ''Tagging builder into ci/stable:latest'', Stdout (''stable:latest'' @ [CHR 0x0A])])"
  by (simp add: Run_def Run_log_def Let_def step0_def deps0_def namespace_def fake_istClient_def
        world0_def imageStreamTag_def ObjectMeta_zero_def)

text \<open>
  C2, amended. In a run that is not a dry run the first call to the store resolves the
  source tag \<open>pipeline:From\<close> in the namespace of the job, and when that call fails \<open>Run\<close>
  returns the error "could not resolve base image" and makes no other call. A dry run
  makes no call to the store: it builds the desired resource from the placeholder image
  \<open>dry-fake\<close>, prints it and stops.
\<close>

theorem Run_resolves_unless_dry:
  "(\<exists>evs. snd (snd (Run d s False w)) =
            Run_log d s # IstGet (js_Namespace (jobSpec s)) (source_name d s) # evs)
   \<and> (ist_Get (istClient s) (js_Namespace (jobSpec s)) (source_name d s) w = (Inl err, w1) \<longrightarrow>
        Run d s False w =
          (Some (''could not resolve base image: '' @ Message err), w1,
           [Run_log d s, IstGet (js_Namespace (jobSpec s)) (source_name d s)]))
   \<and> filter is_store_call (snd (snd (Run d s True w))) = []
   \<and> (MarshalIndent d (imageStreamTag d s ''dry-fake'') = Inr istJSON \<longrightarrow>
        Run d s True w = (None, w, [Run_log d s, Stdout (istJSON @ [CHR 0x0A])]))"
  by (simp add: Run_def Run_log_def source_name_def Let_def split: sum.splits prod.splits option.splits)

theorem Run_resolves_unless_dry_witness:
  "Run deps0 step0 False (world0 [] 0 False) =
     (Some ''could not resolve base image: not found'', world0 [] 0 False,
      [Log ''Tagging builder into ci/stable:latest'', IstGet ''ci'' ''pipeline:builder''])
   \<and> Run deps0 step0 True (world0 [] 0 False) =
       (None, world0 [] 0 False,
        [Log ''Tagging builder into ci/stable:latest'', Stdout (''stable:latest'' @ [CHR 0x0A])])"
proof -
  let ?w = "world0 [] 0 False"
  let ?nf = "\<lparr>Reason = StatusReasonNotFound, Message = ''not found''\<rparr>"
  have g: "ist_Get (istClient step0) (js_Namespace (jobSpec step0)) (source_name deps0 step0) ?w = (Inl ?nf, ?w)"
    by (simp add: step0_def deps0_def source_name_def fake_istClient_def world0_def)
  have m: "MarshalIndent deps0 (imageStreamTag deps0 step0 ''dry-fake'') = Inr ''stable:latest''"
    by (simp add: deps0_def imageStreamTag_def step0_def ObjectMeta_zero_def)
  have l: "Run_log deps0 step0 = Log ''Tagging builder into ci/stable:latest''"
    by (simp add: Run_log_def Let_def step0_def deps0_def namespace_def)
  have n: "js_Namespace (jobSpec step0) = ''ci''" "source_name deps0 step0 = ''pipeline:builder''"
    by (simp_all add: step0_def deps0_def source_name_def)
  from Run_resolves_unless_dry [of deps0 step0 ?w ?nf ?w "''stable:latest''"] g m
  show ?thesis by (simp add: l n)
qed

text \<open>
  C3. When the fetch of the target tag answers "not found", \<open>Done\<close> returns
  \<^verbatim>\<open>(false, nil)\<close>. It leaves the world as the fetch left it, and its only effects are a
  log line and that fetch: it calls neither create nor update.
\<close>

theorem Done_absent:
  assumes "ist_Get (istClient s) (namespace s) (target_name s) w = (Inl err, w1)"
      and "IsNotFound err"
  shows "Done d s w =
           ((False, None), w1,
            [Log (''Checking for existence of '' @ namespace s @ ''/'' @ target_name s),
             IstGet (namespace s) (target_name s)])
         \<and> filter is_mutation (snd (snd (Done d s w))) = []"
  using assms by (simp add: Done_def target_name_def Let_def)

theorem Done_absent_witness:
  "Done deps0 step0 (world0 [source_tag ''sha256:a''] 0 False) =
     ((False, None), world0 [source_tag ''sha256:a''] 0 False,
      [Log ''Checking for existence of ci/stable:latest'', IstGet ''ci'' ''stable:latest''])"
proof -
  let ?w = "world0 [source_tag ''sha256:a''] 0 False"
  let ?e = "\<lparr>Reason = StatusReasonNotFound, Message = ''not found''\<rparr>"
  have g: "ist_Get (istClient step0) (namespace step0) (target_name step0) ?w = (Inl ?e, ?w)"
    by (simp add: step0_def namespace_def target_name_def fake_istClient_def world0_def source_tag_def)
  have n: "IsNotFound ?e" by (simp add: IsNotFound_def)
  show ?thesis using Done_absent [OF g n, of deps0]
    by (simp add: step0_def namespace_def target_name_def)
qed




text \<open>
  C5. A dry run never calls the store, so it calls neither create nor update, and it
  leaves the world as it was. It logs one line, marshals the desired resource built from
  the placeholder image and prints it, or returns the marshalling error.
\<close>

theorem Run_dry_renders_only:
  "fst (snd (Run d s True w)) = w
   \<and> filter is_store_call (snd (snd (Run d s True w))) = []
   \<and> Run d s True w =
       (case MarshalIndent d (imageStreamTag d s ''dry-fake'') of
          Inl err \<Rightarrow> (Some (''failed to marshal imagestreamtag: '' @ err), w, [Run_log d s])
        | Inr istJSON \<Rightarrow> (None, w, [Run_log d s, Stdout (istJSON @ [CHR 0x0A])]))"
  by (simp add: Run_def Run_log_def Let_def split: sum.splits)

theorem Run_dry_renders_only_witness:
  "Run deps0 step2 True (world0 [] 0 False) =
     (None, world0 [] 0 False,
      [Log ''Tagging builder into ocp/stable:latest'', Stdout (''stable:latest'' @ [CHR 0x0A])])"
proof -
  have m: "MarshalIndent deps0 (imageStreamTag deps0 step2 ''dry-fake'') = Inr ''stable:latest''"
    by (simp add: deps0_def imageStreamTag_def step2_def step0_def ObjectMeta_zero_def)
  have l: "Run_log deps0 step2 = Log ''Tagging builder into ocp/stable:latest''"
    by (simp add: Run_log_def Let_def step2_def step0_def deps0_def namespace_def)
  from Run_dry_renders_only [of deps0 step2 "world0 [] 0 False"] show ?thesis
    by (simp add: m l)
qed

text \<open>
  C6, as the claim states it, fails: not every call of \<open>Done\<close> resolves the source. When
  the target tag is absent \<open>Done\<close> returns before it reads the source tag.
\<close>

theorem Done_every_call_counterexample:
  "IstGet ''ci'' ''pipeline:builder'' \<notin>
     set (snd (snd (Done deps0 step0 (world0 [source_tag ''sha256:a''] 0 False))))"
  by (simp add: Done_def Let_def step0_def namespace_def fake_istClient_def world0_def
        source_tag_def IsNotFound_def)

text \<open>
  C6, amended. Every call of \<open>Done\<close> that finds the target tag resolves the source tag
  anew, in the world of that call: its effects are the log line, the fetch of the target
  and the fetch of the source tag, whatever the store answers. When that resolution fails
  the call returns the error "could not resolve base image"; when it succeeds the answer
  compares the stored tag reference with the desired resource built from the image
  resolved in this call. Nothing is kept from one call to the next. So when the image
  behind the source tag has changed between two calls while the stored target tag is the
  same, and the first call answered true, the second answers false.
\<close>

theorem Done_follows_source:
  assumes "ist_Get (istClient s) (namespace s) (target_name s) w = (Inr actual, w1)"
  shows "snd (snd (Done d s w)) =
           [Log (''Checking for existence of '' @ namespace s @ ''/'' @ target_name s),
            IstGet (namespace s) (target_name s),
            IstGet (js_Namespace (jobSpec s)) (source_name d s)]
         \<and> (ist_Get (istClient s) (js_Namespace (jobSpec s)) (source_name d s) w1 = (Inl err, w2) \<longrightarrow>
              fst (Done d s w) = (False, Some (''could not resolve base image: '' @ Message err))
              \<and> fst (snd (Done d s w)) = w2)
         \<and> (ist_Get (istClient s) (js_Namespace (jobSpec s)) (source_name d s) w1 = (Inr from, w2) \<longrightarrow>
              fst (Done d s w) =
                (ist_Tag actual =
                   ist_Tag (imageStreamTag d s (om_Name (img_ObjectMeta (ist_Image from)))), None)
              \<and> fst (snd (Done d s w)) = w2)
         \<and> (ist_Get (istClient s) (js_Namespace (jobSpec s)) (source_name d s) w1 = (Inr from, w2)
              \<and> ist_Get (istClient s) (namespace s) (target_name s) w' = (Inr actual, w1')
              \<and> ist_Get (istClient s) (js_Namespace (jobSpec s)) (source_name d s) w1' = (Inr from', w2')
              \<and> om_Name (img_ObjectMeta (ist_Image from')) \<noteq> om_Name (img_ObjectMeta (ist_Image from))
              \<and> fst (Done d s w) = (True, None) \<longrightarrow>
              fst (Done d s w') = (False, None)
              \<and> IstGet (js_Namespace (jobSpec s)) (source_name d s) \<in> set (snd (snd (Done d s w'))))"
proof (intro conjI impI)
  show "snd (snd (Done d s w)) =
           [Log (''Checking for existence of '' @ namespace s @ ''/'' @ target_name s),
            IstGet (namespace s) (target_name s),
            IstGet (js_Namespace (jobSpec s)) (source_name d s)]"
    using assms
    by (simp add: Done_def target_name_def source_name_def Let_def split: prod.splits sum.splits)
next
  assume "ist_Get (istClient s) (js_Namespace (jobSpec s)) (source_name d s) w1 = (Inl err, w2)"
  with assms show "fst (Done d s w) = (False, Some (''could not resolve base image: '' @ Message err))"
    by (simp add: Done_def target_name_def source_name_def Let_def)
next
  assume "ist_Get (istClient s) (js_Namespace (jobSpec s)) (source_name d s) w1 = (Inl err, w2)"
  with assms show "fst (snd (Done d s w)) = w2"
    by (simp add: Done_def target_name_def source_name_def Let_def)
next
  assume "ist_Get (istClient s) (js_Namespace (jobSpec s)) (source_name d s) w1 = (Inr from, w2)"
  from Done_found [OF assms this]
  show "fst (Done d s w) =
          (ist_Tag actual = ist_Tag (imageStreamTag d s (om_Name (img_ObjectMeta (ist_Image from)))), None)"
    by simp
next
  assume "ist_Get (istClient s) (js_Namespace (jobSpec s)) (source_name d s) w1 = (Inr from, w2)"
  from Done_found [OF assms this] show "fst (snd (Done d s w)) = w2" by simp
next
  assume h: "ist_Get (istClient s) (js_Namespace (jobSpec s)) (source_name d s) w1 = (Inr from, w2)
              \<and> ist_Get (istClient s) (namespace s) (target_name s) w' = (Inr actual, w1')
              \<and> ist_Get (istClient s) (js_Namespace (jobSpec s)) (source_name d s) w1' = (Inr from', w2')
              \<and> om_Name (img_ObjectMeta (ist_Image from')) \<noteq> om_Name (img_ObjectMeta (ist_Image from))
              \<and> fst (Done d s w) = (True, None)"
  then have h1: "ist_Get (istClient s) (js_Namespace (jobSpec s)) (source_name d s) w1 = (Inr from, w2)"
    and h2: "ist_Get (istClient s) (namespace s) (target_name s) w' = (Inr actual, w1')"
    and h3: "ist_Get (istClient s) (js_Namespace (jobSpec s)) (source_name d s) w1' = (Inr from', w2')"
    by simp_all
  note one = Done_found [OF assms h1]
  note two = Done_found [OF h2 h3]
  from h one have "ist_Tag actual = ist_Tag (imageStreamTag d s (om_Name (img_ObjectMeta (ist_Image from))))"
    by simp
  with h have "ist_Tag actual \<noteq> ist_Tag (imageStreamTag d s (om_Name (img_ObjectMeta (ist_Image from'))))"
    by (auto simp add: imageStreamTag_Tag_inject)
  with two show "fst (Done d s w') = (False, None)" by simp
next
  assume h: "ist_Get (istClient s) (js_Namespace (jobSpec s)) (source_name d s) w1 = (Inr from, w2)
              \<and> ist_Get (istClient s) (namespace s) (target_name s) w' = (Inr actual, w1')
              \<and> ist_Get (istClient s) (js_Namespace (jobSpec s)) (source_name d s) w1' = (Inr from', w2')
              \<and> om_Name (img_ObjectMeta (ist_Image from')) \<noteq> om_Name (img_ObjectMeta (ist_Image from))
              \<and> fst (Done d s w) = (True, None)"
  then have h2: "ist_Get (istClient s) (namespace s) (target_name s) w' = (Inr actual, w1')"
    and h3: "ist_Get (istClient s) (js_Namespace (jobSpec s)) (source_name d s) w1' = (Inr from', w2')"
    by simp_all
  from Done_found [OF h2 h3] show "IstGet (js_Namespace (jobSpec s)) (source_name d s) \<in> set (snd (snd (Done d s w')))"
    by simp
qed

theorem Done_follows_source_witness:
  "fst (Done deps0 step0 (world0 [source_tag ''sha256:a'', stored_tag ''sha256:a'' ''7''] 0 False)) = (True, None)
   \<and> fst (Done deps0 step0 (world0 [source_tag ''sha256:b'', stored_tag ''sha256:a'' ''7''] 0 False)) = (False, None)
   \<and> snd (snd (Done deps0 step0 (world0 [source_tag ''sha256:b'', stored_tag ''sha256:a'' ''7''] 0 False))) =
       [Log ''Checking for existence of ci/stable:latest'', IstGet ''ci'' ''stable:latest'',
        IstGet ''ci'' ''pipeline:builder'']
   \<and> Done deps0 step0 (world0 [stored_tag ''sha256:a'' ''7''] 0 False) =
       ((False, Some ''could not resolve base image: not found''),
        world0 [stored_tag ''sha256:a'' ''7''] 0 False,
        [Log ''Checking for existence of ci/stable:latest'', IstGet ''ci'' ''stable:latest'',
         IstGet ''ci'' ''pipeline:builder''])"
proof -
  let ?wa = "world0 [source_tag ''sha256:a'', stored_tag ''sha256:a'' ''7''] 0 False"
  let ?wb = "world0 [source_tag ''sha256:b'', stored_tag ''sha256:a'' ''7''] 0 False"
  let ?wc = "world0 [stored_tag ''sha256:a'' ''7''] 0 False"
  note ta = Done_follows_source [OF fake_target [of "''sha256:a''" "''sha256:a''" "''7''" 0 False],
              where d = deps0]
  note tb = Done_follows_source [OF fake_target [of "''sha256:b''" "''sha256:a''" "''7''" 0 False],
              where d = deps0]
  note tc = Done_follows_source [OF fake_target_only [of "''sha256:a''" "''7''" 0 False],
              where d = deps0]
  have a: "fst (Done deps0 step0 ?wa) = (True, None)"
    using ta [THEN conjunct2, THEN conjunct2, THEN conjunct1, THEN mp, OF fake_source]
    by (simp add: source_tag_image stored_tag_Tag)
  have ne: "om_Name (img_ObjectMeta (ist_Image (snd (source_tag ''sha256:b'')))) \<noteq>
            om_Name (img_ObjectMeta (ist_Image (snd (source_tag ''sha256:a''))))"
    by (simp add: source_tag_image)
  have b: "fst (Done deps0 step0 ?wb) = (False, None)"
    using ta [THEN conjunct2, THEN conjunct2, THEN conjunct2, THEN mp,
              OF conjI [OF fake_source conjI [OF fake_target conjI [OF fake_source conjI [OF ne a]]]]]
    by simp
  have c: "snd (snd (Done deps0 step0 ?wb)) =
       [Log ''Checking for existence of ci/stable:latest'', IstGet ''ci'' ''stable:latest'',
        IstGet ''ci'' ''pipeline:builder'']"
    using tb [THEN conjunct1] by (simp add: step0_names)
  have d: "Done deps0 step0 ?wc =
       ((False, Some ''could not resolve base image: not found''), ?wc,
        [Log ''Checking for existence of ci/stable:latest'', IstGet ''ci'' ''stable:latest'',
         IstGet ''ci'' ''pipeline:builder''])"
    using tc [THEN conjunct1]
      tc [THEN conjunct2, THEN conjunct1, THEN mp, OF fake_source_missing]
    by (cases "Done deps0 step0 ?wc") (simp add: step0_names)
  from a b c d show ?thesis by simp
qed

text \<open>
  C7. The function that \<open>Provides\<close> exports prefers the public repository of the image
  stream to the internal one, as the claim says. The error it returns when neither is set
  does not name the resource it read: the step exports under \<open>cli\<close> and reads the image
  stream \<open>stable\<close> in \<open>ci\<close>, and the error says "image stream cli".
\<close>

theorem Provides_param_names_alias:
  "Provides_param step1 (world1 [stream0 '''' '''']) =
     (([], Some ''image stream cli has no accessible image registry value''),
      world1 [stream0 '''' ''''], [IsGet ''ci'' ''stable''])
   \<and> fst (Provides_param step1 (world1 [stream0 ''172.30.1.1:5000/ci/stable'' ''registry.example.com/ci/stable''])) =
       (''registry.example.com/ci/stable:latest'', None)
   \<and> fst (Provides_param step1 (world1 [stream0 ''172.30.1.1:5000/ci/stable'' ''''])) =
       (''172.30.1.1:5000/ci/stable:latest'', None)"
proof -
  have as: "to_As (To (config step1)) = ''cli''" "to_Tag (To (config step1)) = ''latest''"
    "to_Name (To (config step1)) = ''stable''" "namespace step1 = ''ci''"
    by (simp_all add: step1_def step0_def namespace_def)
  show ?thesis
    by (simp only: Provides_param_found [OF fake_stream]) (simp add: as stream0_def)
qed

text \<open>
  C8. When \<open>To.As\<close> is empty, \<open>Provides\<close> returns the empty parameter map and no link.
\<close>

theorem Provides_nothing_without_As:
  assumes "to_As (To (config s)) = []"
  shows "Provides d s = (Map.empty, None)"
  using assms by (simp add: Provides_def)

theorem Provides_nothing_without_As_witness:
  "Provides deps0 step0 = (Map.empty, None)"
proof -
  have "to_As (To (config step0)) = []" by (simp add: step0_def)
  then show ?thesis by (rule Provides_nothing_without_As)
qed

text \<open>
  C9. The effective namespace is \<open>To.Namespace\<close> when it is not empty and the namespace
  of the job otherwise. Each operation addresses the target there. \<open>Done\<close> always fetches
  the target tag in the effective namespace, right after its log line. The exported
  function always fetches the target image stream there, and makes no other call. \<open>Run\<close>,
  once the source resolves, creates the desired resource there; when the create answers
  "already exists" (and the retry policy has a try) it fetches the target tag there, and
  when that fetch succeeds it updates there. The desired resource, which a dry run only
  prints, carries the effective namespace. No operation makes any other call but the read
  of the source tag in the namespace of the job.
\<close>

theorem namespace_everywhere:
  "namespace s =
     (if to_Namespace (To (config s)) \<noteq> [] then to_Namespace (To (config s))
      else js_Namespace (jobSpec s))
   \<and> (\<exists>evs. snd (snd (Done d s w)) =
               Log (''Checking for existence of '' @ namespace s @ ''/'' @ target_name s)
               # IstGet (namespace s) (target_name s) # evs)
   \<and> snd (snd (Provides_param s w)) = [IsGet (namespace s) (to_Name (To (config s)))]
   \<and> (ist_Get (istClient s) (js_Namespace (jobSpec s)) (source_name d s) w = (Inr from, w1) \<longrightarrow>
        (\<exists>evs. snd (snd (Run d s False w)) =
           [Run_log d s, IstGet (js_Namespace (jobSpec s)) (source_name d s),
            IstCreate (namespace s) (imageStreamTag d s (om_Name (img_ObjectMeta (ist_Image from))))]
           @ evs))
   \<and> (ist_Get (istClient s) (js_Namespace (jobSpec s)) (source_name d s) w = (Inr from, w1)
        \<and> ist_Create (istClient s) (namespace s)
              (imageStreamTag d s (om_Name (img_ObjectMeta (ist_Image from)))) w1 = (Inl err, w2)
        \<and> IsAlreadyExists err \<and> 0 < Steps (DefaultRetry d) \<longrightarrow>
        (\<exists>evs. snd (snd (Run d s False w)) =
           [Run_log d s, IstGet (js_Namespace (jobSpec s)) (source_name d s),
            IstCreate (namespace s) (imageStreamTag d s (om_Name (img_ObjectMeta (ist_Image from)))),
            IstGet (namespace s) (target_name s)] @ evs))
   \<and> (ist_Get (istClient s) (js_Namespace (jobSpec s)) (source_name d s) w = (Inr from, w1)
        \<and> ist_Create (istClient s) (namespace s)
              (imageStreamTag d s (om_Name (img_ObjectMeta (ist_Image from)))) w1 = (Inl err, w2)
        \<and> IsAlreadyExists err \<and> 0 < Steps (DefaultRetry d)
        \<and> ist_Get (istClient s) (namespace s) (target_name s) w2 = (Inr existing, wg) \<longrightarrow>
        (\<exists>evs. snd (snd (Run d s False w)) =
           [Run_log d s, IstGet (js_Namespace (jobSpec s)) (source_name d s),
            IstCreate (namespace s) (imageStreamTag d s (om_Name (img_ObjectMeta (ist_Image from)))),
            IstGet (namespace s) (target_name s),
            IstUpdate (namespace s)
              (with_ResourceVersion (imageStreamTag d s (om_Name (img_ObjectMeta (ist_Image from))))
                 (om_ResourceVersion (ist_ObjectMeta existing)))] @ evs))
   \<and> om_Namespace (ist_ObjectMeta (imageStreamTag d s fromImage)) = namespace s
   \<and> (\<forall>e\<in>set (snd (snd (Run d s dry w))). in_place d s e)
   \<and> (\<forall>e\<in>set (snd (snd (Done d s w))). in_place d s e)
   \<and> (\<forall>e\<in>set (snd (snd (Provides_param s w))). in_place d s e)"
proof (intro conjI impI)
  show "namespace s =
     (if to_Namespace (To (config s)) \<noteq> [] then to_Namespace (To (config s))
      else js_Namespace (jobSpec s))"
    by (simp add: namespace_def)
next
  show "\<exists>evs. snd (snd (Done d s w)) =
               Log (''Checking for existence of '' @ namespace s @ ''/'' @ target_name s)
               # IstGet (namespace s) (target_name s) # evs"
    by (simp add: Done_def target_name_def Let_def split: prod.splits sum.splits)
next
  show "snd (snd (Provides_param s w)) = [IsGet (namespace s) (to_Name (To (config s)))]"
    by (simp add: Provides_param_def Let_def split: prod.splits sum.splits)
next
  assume "ist_Get (istClient s) (js_Namespace (jobSpec s)) (source_name d s) w = (Inr from, w1)"
  then show "\<exists>evs. snd (snd (Run d s False w)) =
           [Run_log d s, IstGet (js_Namespace (jobSpec s)) (source_name d s),
            IstCreate (namespace s) (imageStreamTag d s (om_Name (img_ObjectMeta (ist_Image from))))]
           @ evs"
    by (rule Run_creates)
next
  assume h: "ist_Get (istClient s) (js_Namespace (jobSpec s)) (source_name d s) w = (Inr from, w1)
        \<and> ist_Create (istClient s) (namespace s)
              (imageStreamTag d s (om_Name (img_ObjectMeta (ist_Image from)))) w1 = (Inl err, w2)
        \<and> IsAlreadyExists err \<and> 0 < Steps (DefaultRetry d)"
  then have h1: "ist_Get (istClient s) (js_Namespace (jobSpec s)) (source_name d s) w = (Inr from, w1)"
    and h2: "ist_Create (istClient s) (namespace s)
              (imageStreamTag d s (om_Name (img_ObjectMeta (ist_Image from)))) w1 = (Inl err, w2)"
    and h3: "IsAlreadyExists err" and h4: "0 < Steps (DefaultRetry d)"
    by simp_all
  show "\<exists>evs. snd (snd (Run d s False w)) =
           [Run_log d s, IstGet (js_Namespace (jobSpec s)) (source_name d s),
            IstCreate (namespace s) (imageStreamTag d s (om_Name (img_ObjectMeta (ist_Image from)))),
            IstGet (namespace s) (target_name s)] @ evs"
    by (rule Run_fetches_target(1) [OF h1 refl h2 h3 h4])
next
  assume h: "ist_Get (istClient s) (js_Namespace (jobSpec s)) (source_name d s) w = (Inr from, w1)
        \<and> ist_Create (istClient s) (namespace s)
              (imageStreamTag d s (om_Name (img_ObjectMeta (ist_Image from)))) w1 = (Inl err, w2)
        \<and> IsAlreadyExists err \<and> 0 < Steps (DefaultRetry d)
        \<and> ist_Get (istClient s) (namespace s) (target_name s) w2 = (Inr existing, wg)"
  then have h1: "ist_Get (istClient s) (js_Namespace (jobSpec s)) (source_name d s) w = (Inr from, w1)"
    and h2: "ist_Create (istClient s) (namespace s)
              (imageStreamTag d s (om_Name (img_ObjectMeta (ist_Image from)))) w1 = (Inl err, w2)"
    and h3: "IsAlreadyExists err" and h4: "0 < Steps (DefaultRetry d)"
    and h5: "ist_Get (istClient s) (namespace s) (target_name s) w2 = (Inr existing, wg)"
    by simp_all
  show "\<exists>evs. snd (snd (Run d s False w)) =
           [Run_log d s, IstGet (js_Namespace (jobSpec s)) (source_name d s),
            IstCreate (namespace s) (imageStreamTag d s (om_Name (img_ObjectMeta (ist_Image from)))),
            IstGet (namespace s) (target_name s),
            IstUpdate (namespace s)
              (with_ResourceVersion (imageStreamTag d s (om_Name (img_ObjectMeta (ist_Image from))))
                 (om_ResourceVersion (ist_ObjectMeta existing)))] @ evs"
    by (rule Run_fetches_target(2) [OF h1 refl h2 h3 h4 h5])
next
  show "om_Namespace (ist_ObjectMeta (imageStreamTag d s fromImage)) = namespace s"
    by (rule imageStreamTag_names)
next
  show "\<forall>e\<in>set (snd (snd (Run d s dry w))). in_place d s e"
    by (rule Run_in_place)
next
  show "\<forall>e\<in>set (snd (snd (Done d s w))). in_place d s e"
    by (auto simp add: Done_def target_name_def source_name_def Let_def
          split: prod.splits sum.splits)
next
  show "\<forall>e\<in>set (snd (snd (Provides_param s w))). in_place d s e"
    by (auto simp add: Provides_param_def Let_def split: prod.splits sum.splits)
qed

theorem namespace_everywhere_witness:
  "namespace step2 = ''ocp''
   \<and> namespace step0 = ''ci''
   \<and> IstGet ''ocp'' ''stable:latest'' \<in>
       set (snd (snd (Done deps0 step2 (world0 [source_tag ''sha256:a''] 0 False))))
   \<and> snd (snd (Provides_param step2 (world0 [source_tag ''sha256:a''] 0 False))) =
       [IsGet ''ocp'' ''stable'']
   \<and> IstCreate ''ocp'' (imageStreamTag deps0 step2 ''sha256:a'') \<in>
       set (snd (snd (Run deps0 step2 False (world0 [source_tag ''sha256:a''] 0 False))))
   \<and> IstUpdate ''ocp'' (with_ResourceVersion (imageStreamTag deps0 step2 ''sha256:a'') ''7'') \<in>
       set (snd (snd (Run deps0 step2 False
                        (world0 [source_tag ''sha256:a'', stored_tag2 ''sha256:b'' ''7''] 0 False))))"
proof -
  let ?w = "world0 [source_tag ''sha256:a''] 0 False"
  let ?v = "world0 [source_tag ''sha256:a'', stored_tag2 ''sha256:b'' ''7''] 0 False"
  let ?desired = "imageStreamTag deps0 step2 ''sha256:a''"
  let ?ae = "\<lparr>Reason = StatusReasonAlreadyExists, Message = ''already exists''\<rparr>"
  have src: "ist_Get (istClient step2) (js_Namespace (jobSpec step2)) (source_name deps0 step2)
               (world0 (source_tag ''sha256:a'' # tags) 0 False) =
             (Inr (snd (source_tag ''sha256:a'')), world0 (source_tag ''sha256:a'' # tags) 0 False)" for tags
    by (simp add: step2_names fake_istClient_def world0_def source_tag_def)
  have img: "imageStreamTag deps0 step2 (om_Name (img_ObjectMeta (ist_Image (snd (source_tag ''sha256:a''))))) = ?desired"
    by (simp add: source_tag_image)
  have cr: "ist_Create (istClient step2) (namespace step2) ?desired ?v = (Inl ?ae, ?v)"
    by (simp add: step2_names fake_istClient_def world0_def source_tag_def stored_tag2_def
          imageStreamTag_def ObjectMeta_zero_def)
  have tg: "ist_Get (istClient step2) (namespace step2) (target_name step2) ?v =
              (Inr (snd (stored_tag2 ''sha256:b'' ''7'')), ?v)"
    by (simp add: step2_names fake_istClient_def world0_def source_tag_def stored_tag2_def)
  have rv: "om_ResourceVersion (ist_ObjectMeta (snd (stored_tag2 ''sha256:b'' ''7''))) = ''7''"
    by (simp add: stored_tag2_def with_ResourceVersion_def)
  have ae: "IsAlreadyExists ?ae" by (simp add: IsAlreadyExists_def)
  have st: "0 < Steps (DefaultRetry deps0)" by (simp add: deps0_def)
  note t = namespace_everywhere [where s = step2 and d = deps0 and w = ?w
             and ?from = "snd (source_tag ''sha256:a'')" and ?w1.0 = ?w]
  note u = namespace_everywhere [where s = step2 and d = deps0 and w = ?v
             and ?from = "snd (source_tag ''sha256:a'')" and ?w1.0 = ?v and err = ?ae and ?w2.0 = ?v
             and existing = "snd (stored_tag2 ''sha256:b'' ''7'')" and wg = ?v]
  have a: "namespace step2 = ''ocp''" using t [THEN conjunct1] by (simp add: step2_def step0_def)
  have b: "namespace step0 = ''ci''"
    using namespace_everywhere [where s = step0, THEN conjunct1] by (simp add: step0_def)
  have c: "IstGet ''ocp'' ''stable:latest'' \<in> set (snd (snd (Done deps0 step2 ?w)))"
    using t [THEN conjunct2, THEN conjunct1] by (auto simp add: step2_names)
  have d: "snd (snd (Provides_param step2 ?w)) = [IsGet ''ocp'' ''stable'']"
    using t [THEN conjunct2, THEN conjunct2, THEN conjunct1] by (simp add: step2_names)
  have e: "IstCreate ''ocp'' ?desired \<in> set (snd (snd (Run deps0 step2 False ?w)))"
    using t [THEN conjunct2, THEN conjunct2, THEN conjunct2, THEN conjunct1, THEN mp, OF src [of "[]"]]
    by (auto simp add: step2_names img)
  have f: "IstUpdate ''ocp'' (with_ResourceVersion ?desired ''7'') \<in> set (snd (snd (Run deps0 step2 False ?v)))"
    using u [THEN conjunct2, THEN conjunct2, THEN conjunct2, THEN conjunct2, THEN conjunct2,
             THEN conjunct1, THEN mp,
             OF conjI [OF src [of "[stored_tag2 ''sha256:b'' ''7'']"]
                 conjI [OF cr [folded img] conjI [OF ae conjI [OF st tg]]]]]
    by (auto simp add: step2_names img rv)
  from a b c d e f show ?thesis by simp
qed

text \<open>
  C10. For every step, every dry-run flag and every world, \<open>Inputs\<close> returns
  \<^verbatim>\<open>(nil, nil)\<close>: no inputs and no error. It leaves the world as it was and performs no
  effect, so it makes no call to the store.
\<close>

theorem Inputs_nil_nil:
  "Inputs s dry w = (([], None), w, [])"
  by (simp add: Inputs_def)

theorem Inputs_nil_nil_witness:
  "Inputs step0 True (world0 [] 0 False) = (([], None), world0 [] 0 False, [])"
  by (rule Inputs_nil_nil)

end

